theory Spec2Isabelle
  imports Complex_Main
begin

section \<open>Python strings\<close>

text \<open>
  A Python \<open>str\<close> is modelled as a \<open>string\<close>; a character stands for the code point of the
  same number, so the model covers text whose code points are below 256.

  \<open>py_isspace\<close> is \<open>str.isspace\<close> on one character, which is also what the pattern \<open>\s\<close>
  of \<open>re\<close> accepts: the code points 9 to 13, 28 to 32, 133 and 160 are the white space
  below 256.
\<close>

definition py_isspace :: "char \<Rightarrow> bool" where
  "py_isspace c =
     (let n = (of_char c :: nat)
      in (9 \<le> n \<and> n \<le> 13) \<or> (28 \<le> n \<and> n \<le> 32) \<or> n = 133 \<or> n = 160)"

text \<open>
  \<open>s.split()\<close> without argument: the maximal runs of characters that are not white space,
  in order; an empty run is never returned. \<open>split_run cur s\<close> scans \<open>s\<close> with the run
  \<open>cur\<close> read so far.
\<close>

fun split_run :: "string \<Rightarrow> string \<Rightarrow> string list" where
  "split_run cur [] = (if cur = [] then [] else [cur])"
| "split_run cur (c # cs) =
     (if py_isspace c
      then (if cur = [] then split_run [] cs else cur # split_run [] cs)
      else split_run (cur @ [c]) cs)"

definition py_split :: "string \<Rightarrow> string list" where
  "py_split s = split_run [] s"

text \<open>\<open>line.startswith(p)\<close>.\<close>

definition startswith :: "string \<Rightarrow> string \<Rightarrow> bool" where
  "startswith line p = (take (length p) line = p)"

text \<open>
  \<open>s.split(sep)\<close> for a separator of one character: the pieces between the separators,
  empty pieces included; the result is never empty.
\<close>

fun split_on :: "char \<Rightarrow> string \<Rightarrow> string list" where
  "split_on sep [] = [[]]"
| "split_on sep (c # cs) =
     (if c = sep then [] # split_on sep cs
      else (case split_on sep cs of
              [] \<Rightarrow> [[c]]
            | piece # pieces \<Rightarrow> (c # piece) # pieces))"

text \<open>\<open>str(n)\<close> for an \<open>int\<close>: the decimal digits, after a minus sign when \<open>n\<close> is negative.\<close>

definition digit_char :: "nat \<Rightarrow> char" where
  "digit_char d = ''0123456789'' ! (d mod 10)"

function str_nat :: "nat \<Rightarrow> string" where
  "str_nat n = (if n < 10 then [digit_char n] else str_nat (n div 10) @ [digit_char (n mod 10)])"
  by pat_completeness auto
termination
  by (relation "measure (\<lambda>n. n)") auto

declare str_nat.simps [simp del]

definition str_int :: "int \<Rightarrow> string" where
  "str_int i = (if i < 0 then CHR ''-'' # str_nat (nat (- i)) else str_nat (nat i))"

section \<open>Extraction of the job identifier\<close>

text \<open>
  The pattern of the fallback, \<open>Job ID[:\s=]+([a-f0-9]{24})\<close> with \<open>re.IGNORECASE\<close>, is
  matched by hand. \<open>to_lower\<close> folds the case of the ASCII letters, \<open>is_sep\<close> is the class
  \<open>[:\s=]\<close> and \<open>is_hex\<close> the class \<open>[a-f0-9]\<close> under \<open>IGNORECASE\<close>.
\<close>

definition to_lower :: "char \<Rightarrow> char" where
  "to_lower c =
     (case map_of (zip ''ABCDEFGHIJKLMNOPQRSTUVWXYZ'' ''abcdefghijklmnopqrstuvwxyz'') c of
        Some l \<Rightarrow> l
      | None \<Rightarrow> c)"

definition is_sep :: "char \<Rightarrow> bool" where
  "is_sep c = (c = CHR '':'' \<or> py_isspace c \<or> c = CHR ''='')"

definition is_hex :: "char \<Rightarrow> bool" where
  "is_hex c = (to_lower c \<in> set ''abcdef0123456789'')"

text \<open>
  \<open>match_at s\<close> is the match of the pattern anchored at the start of \<open>s\<close>, giving group 1.
  No character is both in \<open>[:\s=]\<close> and in \<open>[a-f0-9]\<close>, so the greedy \<open>+\<close> takes the whole
  run of separators and backtracking into the run cannot succeed.
\<close>

definition match_at :: "string \<Rightarrow> string option" where
  "match_at s =
     (let label = take 6 s;
          seps = takeWhile is_sep (drop 6 s);
          rest = dropWhile is_sep (drop 6 s)
      in if map to_lower label = ''job id'' \<and> seps \<noteq> []
            \<and> 24 \<le> length rest \<and> list_all is_hex (take 24 rest)
         then Some (take 24 rest) else None)"

text \<open>\<open>re.search\<close>: the match at the leftmost position that has one.\<close>

fun re_search :: "string \<Rightarrow> string option" where
  "re_search [] = match_at []"
| "re_search (c # cs) =
     (case match_at (c # cs) of Some g \<Rightarrow> Some g | None \<Rightarrow> re_search cs)"

text \<open>The loop of \<open>_extract_job_id\<close> over the tokens: the first one that starts with \<open>JobID=\<close>.\<close>

fun first_jobid_token :: "string list \<Rightarrow> string option" where
  "first_jobid_token [] = None"
| "first_jobid_token (line # lines) =
     (if startswith line ''JobID='' then Some (drop 6 line) else first_jobid_token lines)"

text \<open>
  \<open>DeadlineIntegration._extract_job_id\<close> of \<open>deadline_integration_simple.py\<close> (an Isabelle
  name cannot start with an underscore). The empty string is the result when nothing is
  found.
\<close>

definition extract_job_id :: "string \<Rightarrow> string" where
  "extract_job_id stdout =
     (case first_jobid_token (py_split stdout) of
        Some job_id \<Rightarrow> job_id
      | None \<Rightarrow> (case re_search stdout of Some job_id \<Rightarrow> job_id | None \<Rightarrow> ''''))"

section \<open>Data model\<close>

text \<open>
  A Python \<open>dict\<close> with string keys is an association list in insertion order, one pair for
  each key. \<open>dict_set\<close> is \<open>d[k] = v\<close>: the value of a key that is present is replaced
  where it stands, a new key goes to the end. \<open>dict_del\<close> removes a key, as \<open>del d[k]\<close> and
  \<open>d.pop(k, None)\<close> do for a key that is present; \<open>map_of d k\<close> is the lookup and
  \<open>map_of d k \<noteq> None\<close> is \<open>k in d\<close>.
\<close>

type_synonym 'v dict = "(string \<times> 'v) list"

fun dict_set :: "string \<Rightarrow> 'v \<Rightarrow> 'v dict \<Rightarrow> 'v dict" where
  "dict_set k v [] = [(k, v)]"
| "dict_set k v ((k', v') # d) =
     (if k' = k then (k, v) # d else (k', v') # dict_set k v d)"

definition dict_del :: "string \<Rightarrow> 'v dict \<Rightarrow> 'v dict" where
  "dict_del k d = filter (\<lambda>(k', v'). k' \<noteq> k) d"

text \<open>
  The values of \<open>claimed_workers\<close> (keys \<open>id\<close>, \<open>ip\<close>, \<open>port\<close>, \<open>job_id\<close>, \<open>last_seen\<close>) and of
  \<open>active_jobs\<close> (keys \<open>type\<close>, \<open>count\<close>, \<open>master_ws\<close>, \<open>submitted_at\<close>). The clock
  \<open>time.time()\<close> is a real number of seconds.
\<close>

record worker_info =
  w_id :: string
  w_ip :: string
  w_port :: int
  w_job_id :: "string option"
  last_seen :: real

record job_data =
  j_type :: string
  j_count :: int
  j_master_ws :: string
  submitted_at :: real

text \<open>
  The shared configuration document: its \<open>workers\<close> list, absent when the document has no
  such key, and each worker a flat dictionary of JSON values.
\<close>

datatype jval = JNull | JBool bool | JInt int | JStr string

type_synonym worker_entry = "jval dict"

record config =
  workers :: "worker_entry list option"

text \<open>
  The state: the four attributes of \<open>DeadlineIntegration\<close>, and what the object acts on
  outside itself: the configuration document that \<open>load_config\<close> and \<open>save_config\<close> read
  and write, the messages logged as warnings, and the command lines handed to
  \<open>subprocess.run\<close>, oldest first.
\<close>

record state =
  deadline_command :: "string option"
  claimed_workers :: "worker_info dict"
  active_jobs :: "job_data dict"
  worker_heartbeat_timeout :: real
  config_file :: config
  warnings :: "string list"
  commands :: "string list list"

text \<open>\<open>__init__\<close>, for the command that \<open>_find_deadline_command\<close> found, if any.\<close>

definition init :: "string option \<Rightarrow> config \<Rightarrow> state" where
  "init cmd cfg =
     \<lparr>deadline_command = cmd, claimed_workers = [], active_jobs = [],
      worker_heartbeat_timeout = 60, config_file = cfg, warnings = [], commands = []\<rparr>"

text \<open>
  \<open>if not self.deadline_command\<close>: \<open>None\<close> and the empty string count as no command.
\<close>

definition command_of :: "state \<Rightarrow> string option" where
  "command_of s =
     (case deadline_command s of
        None \<Rightarrow> None
      | Some cmd \<Rightarrow> if cmd = [] then None else Some cmd)"

text \<open>
  What a call outside the program gives back: a value, or an exception with its text.
  The replies of the operations: a dictionary with \<open>success\<close> false and an \<open>error\<close> is
  \<open>Failure\<close> with the error, one with \<open>success\<close> true is \<open>Success\<close> with its other entries.
\<close>

datatype 'a io = Raises string | Returns 'a

datatype 'a reply = Failure string | Success 'a

section \<open>The shared configuration\<close>

text \<open>
  Modelled from the spec: \<open>utils/config.py\<close>, which defines \<open>load_config\<close> and
  \<open>save_config\<close>, is not among the sources. The spec has them as load and save over a JSON
  document containing a \<open>workers\<close> list: \<open>load_config()\<close> returns the document
  (\<open>config_file\<close>), \<open>save_config(config)\<close> replaces it, and each may raise. \<open>config_io\<close>
  says, for one call of an operation, whether importing the two functions (by both
  methods), loading, or saving raises, and with what text.
\<close>

record config_io =
  import_error :: "string option"
  load_error :: "string option"
  save_error :: "string option"

definition warn :: "string \<Rightarrow> state \<Rightarrow> state" where
  "warn msg s = s\<lparr>warnings := warnings s @ [msg]\<rparr>"

text \<open>
  The loop with \<open>enumerate\<close> and \<open>break\<close>: the index of the first worker whose \<open>id\<close> is
  \<open>worker_id\<close>.
\<close>

fun existing_worker :: "string \<Rightarrow> worker_entry list \<Rightarrow> nat option" where
  "existing_worker worker_id [] = None"
| "existing_worker worker_id (worker # ws) =
     (if map_of worker ''id'' = Some (JStr worker_id) then Some 0
      else map_option Suc (existing_worker worker_id ws))"

definition worker_config :: "string \<Rightarrow> string \<Rightarrow> string \<Rightarrow> int \<Rightarrow> worker_entry" where
  "worker_config hostname worker_id worker_ip worker_port =
     [(''id'', JStr worker_id),
      (''host'', JStr worker_ip),
      (''port'', JInt worker_port),
      (''cuda_device'', JInt 0),
      (''enabled'', JBool True),
      (''source'', JStr ''deadline''),
      (''name'', JStr (''Deadline Worker ('' @ hostname @ '')'')),
      (''args'', JStr []),
      (''platform'', JStr ''deadline'')]"

text \<open>
  \<open>_add_worker_to_distributed_config\<close>; \<open>hostname\<close> is \<open>socket.gethostname()\<close>. Every
  exception ends in the handler, which logs the warning and returns.
\<close>

definition add_worker_to_distributed_config ::
    "config_io \<Rightarrow> string \<Rightarrow> state \<Rightarrow> string \<Rightarrow> string \<Rightarrow> int \<Rightarrow> state" where
  "add_worker_to_distributed_config cio hostname s worker_id worker_ip worker_port =
     (let handler = (\<lambda>e. warn (''Warning: Could not add worker to distributed config: '' @ e) s)
      in case import_error cio of
           Some e \<Rightarrow> handler e
         | None \<Rightarrow>
        (case load_error cio of
           Some e \<Rightarrow> handler e
         | None \<Rightarrow>
             let ws = (case workers (config_file s) of None \<Rightarrow> [] | Some ws \<Rightarrow> ws);
                 entry = worker_config hostname worker_id worker_ip worker_port;
                 ws' = (case existing_worker worker_id ws of
                          Some i \<Rightarrow> ws[i := entry]
                        | None \<Rightarrow> ws @ [entry])
             in (case save_error cio of
                   Some e \<Rightarrow> handler e
                 | None \<Rightarrow> s\<lparr>config_file := (config_file s)\<lparr>workers := Some ws'\<rparr>\<rparr>)))"

text \<open>\<open>_remove_worker_from_distributed_config\<close>.\<close>

definition remove_worker_from_distributed_config ::
    "config_io \<Rightarrow> state \<Rightarrow> string \<Rightarrow> state" where
  "remove_worker_from_distributed_config cio s worker_id =
     (let handler =
            (\<lambda>e. warn (''Warning: Could not remove worker from distributed config: '' @ e) s)
      in case import_error cio of
           Some e \<Rightarrow> handler e
         | None \<Rightarrow>
        (case load_error cio of
           Some e \<Rightarrow> handler e
         | None \<Rightarrow>
        (case workers (config_file s) of
           None \<Rightarrow> s
         | Some ws \<Rightarrow>
             let ws' = filter (\<lambda>w. map_of w ''id'' \<noteq> Some (JStr worker_id)) ws
             in if length ws' < length ws
                then (case save_error cio of
                        Some e \<Rightarrow> handler e
                      | None \<Rightarrow> s\<lparr>config_file := (config_file s)\<lparr>workers := Some ws'\<rparr>\<rparr>)
                else s)))"

section \<open>The worker registry\<close>

text \<open>
  Each operation takes the state and returns its reply with the new state; \<open>now\<close> is what
  \<open>time.time()\<close> returns during the call.
\<close>

definition register_worker ::
    "config_io \<Rightarrow> string \<Rightarrow> real \<Rightarrow> state \<Rightarrow> string \<Rightarrow> string \<Rightarrow> int \<Rightarrow> string option
       \<Rightarrow> string reply \<times> state" where
  "register_worker cio hostname now s worker_id worker_ip worker_port job_id =
     (let s1 = s\<lparr>claimed_workers :=
                  dict_set worker_id
                    \<lparr>w_id = worker_id, w_ip = worker_ip, w_port = worker_port,
                     w_job_id = job_id, last_seen = now\<rparr>
                    (claimed_workers s)\<rparr>;
          s2 = add_worker_to_distributed_config cio hostname s1 worker_id worker_ip worker_port
      in (Success (''Worker '' @ worker_id @ '' registered and added to distributed config''),
          s2))"

definition worker_heartbeat :: "real \<Rightarrow> state \<Rightarrow> string \<Rightarrow> unit reply \<times> state" where
  "worker_heartbeat now s worker_id =
     (case map_of (claimed_workers s) worker_id of
        Some info \<Rightarrow>
          (Success (),
           s\<lparr>claimed_workers :=
               dict_set worker_id (info\<lparr>last_seen := now\<rparr>) (claimed_workers s)\<rparr>)
      | None \<Rightarrow> (Failure ''Worker not found'', s))"

definition unregister_worker :: "config_io \<Rightarrow> state \<Rightarrow> string \<Rightarrow> string reply \<times> state" where
  "unregister_worker cio s worker_id =
     (case map_of (claimed_workers s) worker_id of
        Some info \<Rightarrow>
          (let s1 = s\<lparr>claimed_workers := dict_del worker_id (claimed_workers s)\<rparr>;
               s2 = remove_worker_from_distributed_config cio s1 worker_id
           in (Success (''Worker '' @ worker_id @ '' unregistered''), s2))
      | None \<Rightarrow> (Failure ''Worker not found'', s))"

text \<open>
  The loop of \<open>get_active_workers\<close> over \<open>list(self.claimed_workers.items())\<close>: a worker seen
  less than the timeout ago is appended to \<open>active_workers\<close>, any other is deleted from
  the dictionary.
\<close>

fun sweep ::
    "real \<Rightarrow> real \<Rightarrow> (string \<times> worker_info) list \<Rightarrow> worker_info list \<Rightarrow> worker_info dict
       \<Rightarrow> worker_info list \<times> worker_info dict" where
  "sweep current_time timeout [] active_workers d = (active_workers, d)"
| "sweep current_time timeout ((worker_id, info) # items) active_workers d =
     (if current_time - last_seen info < timeout
      then sweep current_time timeout items (active_workers @ [info]) d
      else sweep current_time timeout items active_workers (dict_del worker_id d))"

definition get_active_workers :: "real \<Rightarrow> state \<Rightarrow> worker_info list \<times> state" where
  "get_active_workers now s =
     (case sweep now (worker_heartbeat_timeout s) (claimed_workers s) [] (claimed_workers s) of
        (active_workers, d) \<Rightarrow> (active_workers, s\<lparr>claimed_workers := d\<rparr>))"

text \<open>
  \<open>get_worker_status\<close>: the reply is unavailable with an error, or the report.
\<close>

record status_report =
  st_available_workers :: nat
  st_claimed_workers :: nat
  st_total_workers :: nat
  st_active_jobs :: nat
  st_active_workers :: "worker_info list"

datatype status = Unavailable string | Available status_report

definition get_worker_status :: "real \<Rightarrow> state \<Rightarrow> status \<times> state" where
  "get_worker_status now s =
     (case command_of s of
        None \<Rightarrow> (Unavailable ''Deadline not available'', s)
      | Some cmd \<Rightarrow>
          (case get_active_workers now s of
             (active_workers, s') \<Rightarrow>
               (Available
                  \<lparr>st_available_workers = 16,
                   st_claimed_workers = length active_workers,
                   st_total_workers = 16,
                   st_active_jobs = length (active_jobs s'),
                   st_active_workers = active_workers\<rparr>,
                s')))"

section \<open>The provisioning request\<close>

text \<open>
  \<open>_create_worker_job_files\<close> writes three files into a fresh temporary directory and
  returns their paths. The model returns the paths together with the content of each
  file, the characters that the calls of \<open>f.write\<close> put there one after the other.
  \<open>os.path.join\<close> is taken for a directory that does not end in a separator, with the
  separator \<open>/\<close>.

  \<open>write_lines texts\<close> is the content after one \<open>f.write\<close> for each text of the list, in
  order: each write of the source ends its text with the line feed \<open>\n\<close>, the character of
  code 10. \<open>join_lines\<close> puts the line feed between the lines only, as \<open>json.dump\<close> does.
\<close>

definition write_lines :: "string list \<Rightarrow> string" where
  "write_lines texts = concat (map (\<lambda>text. text @ [CHR 0x0A]) texts)"

fun join_lines :: "string list \<Rightarrow> string" where
  "join_lines [] = []"
| "join_lines [line] = line"
| "join_lines (line # next_line # lines) = line @ [CHR 0x0A] @ join_lines (next_line # lines)"

definition os_path_join :: "string \<Rightarrow> string \<Rightarrow> string" where
  "os_path_join dir name = dir @ ''/'' @ name"

record job_files =
  job_info_file :: string
  plugin_info_file :: string
  workflow_file :: string
  job_info :: string
  plugin_info :: string
  workflow :: string

text \<open>
  \<open>master_ws.split(':')[0]\<close>, and \<open>master_ws.split(':')[1] if ':' in master_ws else '8188'\<close>.
\<close>

definition master_host :: "string \<Rightarrow> string" where
  "master_host master_ws =
     (case split_on CHR '':'' master_ws of [] \<Rightarrow> [] | piece # pieces \<Rightarrow> piece)"

definition master_port :: "string \<Rightarrow> string" where
  "master_port master_ws =
     (if CHR '':'' \<in> set master_ws
      then (case split_on CHR '':'' master_ws of
              piece # second # pieces \<Rightarrow> second
            | _ \<Rightarrow> [])
      else ''8188'')"

text \<open>The placeholder workflow, as \<open>json.dump\<close> with \<open>indent=2\<close> lays it out.\<close>

definition dummy_workflow :: "string list" where
  \<open>dummy_workflow =
     [''{'',
      ''  "1": {'',
      ''    "class_type": "DeadlineWorkerRegistration",'',
      ''    "inputs": {},'',
      ''    "_meta": {'',
      ''      "title": "Deadline Worker Registration"'',
      ''    }'',
      ''  }'',
      ''}'']\<close>

definition create_worker_job_files ::
    "string \<Rightarrow> string \<Rightarrow> int \<Rightarrow> string \<Rightarrow> int \<Rightarrow> string \<Rightarrow> string \<Rightarrow> job_files" where
  "create_worker_job_files temp_dir job_name cnt master_ws priority pool grp =
     (let dummy_workflow_file = os_path_join temp_dir ''worker_registration.json''
      in \<lparr>job_info_file = os_path_join temp_dir ''job_info.txt'',
          plugin_info_file = os_path_join temp_dir ''plugin_info.txt'',
          workflow_file = dummy_workflow_file,
          job_info =
            write_lines
              [''Plugin=ComfyUI'',
               ''Name='' @ job_name,
               ''Comment=ComfyUI Distributed Workers - Interactive Mode'',
               ''Department=ComfyUI'',
               ''Priority='' @ str_int priority,
               ''Pool='' @ (if pool \<noteq> ''none'' then pool else []),
               ''Group='' @ (if grp \<noteq> ''none'' then grp else []),
               ''TaskTimeoutMinutes=0'',
               ''EnableAutoTimeout=false'',
               ''ConcurrentTasks=1'',
               ''LimitConcurrentTasksToNumberOfCpus=false'',
               ''MachineLimit='' @ str_int cnt,
               ''Frames=1-'' @ str_int cnt,
               ''ChunkSize=1'',
               ''EnvironmentKeyValue0=DEADLINE_DIST_MODE=1'',
               ''EnvironmentKeyValue1=COMFY_MASTER_WS='' @ master_ws,
               ''EnvironmentKeyValue2=COMFY_MASTER_HOST='' @ master_host master_ws,
               ''EnvironmentKeyValue3=COMFY_MASTER_PORT='' @ master_port master_ws,
               ''EnvironmentKeyValue4=COMFY_FORCE_NEW_INSTANCE=1'',
               ''EnvironmentKeyValue5=COMFY_WORKER_MODE=1''],
          plugin_info =
            write_lines
              [''DefaultCudaDeviceZero=True'',
               ''SeedMode=fixed'',
               ''BatchMode=False'',
               ''DistributedMode=True'',
               ''WorkerMode=True'',
               ''ForceNewInstance=True'',
               ''UseExistingInstance=False'',
               ''WorkflowFile='' @ dummy_workflow_file],
          workflow = join_lines dummy_workflow\<rparr>)"

section \<open>Claiming and releasing workers\<close>

text \<open>
  \<open>subprocess.run\<close> is a parameter of the model: the answer of the scheduler's command to
  each command line during one call of an operation, which is a completed process or an
  exception (a timeout, a missing executable).
\<close>

record completed_process =
  returncode :: int
  proc_stdout :: string
  proc_stderr :: string

type_synonym subprocess = "string list \<Rightarrow> completed_process io"

definition issue :: "string list \<Rightarrow> state \<Rightarrow> state" where
  "issue argv s = s\<lparr>commands := commands s @ [argv]\<rparr>"

text \<open>
  \<open>claim_workers\<close>. \<open>tmp\<close> is the temporary directory, or the exception raised while the
  directory or the files are created. A success carries \<open>job_id\<close> and \<open>message\<close>.
\<close>

definition claim_workers ::
    "subprocess \<Rightarrow> string io \<Rightarrow> real \<Rightarrow> state \<Rightarrow> int \<Rightarrow> string \<Rightarrow> int \<Rightarrow> string \<Rightarrow> string
       \<Rightarrow> (string \<times> string) reply \<times> state" where
  "claim_workers run tmp now s cnt master_ws priority pool grp =
     (case command_of s of
        None \<Rightarrow> (Failure ''Deadline not available'', s)
      | Some cmd \<Rightarrow>
     (case tmp of
        Raises e \<Rightarrow> (Failure e, s)
      | Returns temp_dir \<Rightarrow>
          (let job_name = ''[DIST] ComfyUI Workers x'' @ str_int cnt;
               files = create_worker_job_files temp_dir job_name cnt master_ws priority pool grp;
               argv = [cmd, ''-SubmitJob'',
                       job_info_file files, plugin_info_file files, workflow_file files];
               s1 = issue argv s
           in (case run argv of
                 Raises e \<Rightarrow> (Failure e, s1)
               | Returns result \<Rightarrow>
                   if returncode result = 0
                   then (let job_id = extract_job_id (proc_stdout result)
                         in if job_id \<noteq> []
                            then (Success
                                    (job_id,
                                     ''Successfully claimed '' @ str_int cnt
                                       @ '' workers for distributed processing (Job: ''
                                       @ job_id @ '')''),
                                  s1\<lparr>active_jobs :=
                                       dict_set job_id
                                         \<lparr>j_type = ''distributed'', j_count = cnt,
                                          j_master_ws = master_ws, submitted_at = now\<rparr>
                                         (active_jobs s1)\<rparr>)
                            else (Failure ''Job submitted but JobID not found in output'', s1))
                   else (Failure
                           (''Deadline submission failed with code ''
                              @ str_int (returncode result) @ '': '' @ proc_stderr result),
                         s1)))))"

text \<open>
  The loop of \<open>release_workers\<close> over \<open>jobs_to_release\<close>, with the count so far. An
  exception of \<open>subprocess.run\<close> ends the loop; its text comes back with the state as the
  loop left it.
\<close>

fun release_jobs ::
    "subprocess \<Rightarrow> string \<Rightarrow> string list \<Rightarrow> nat \<Rightarrow> state \<Rightarrow> string option \<times> nat \<times> state" where
  "release_jobs run cmd [] released_count s = (None, released_count, s)"
| "release_jobs run cmd (jid # jids) released_count s =
     (let argv = [cmd, ''-DeleteJob'', jid];
          s1 = issue argv s
      in (case run argv of
            Raises e \<Rightarrow> (Some e, released_count, s1)
          | Returns result \<Rightarrow>
              if returncode result = 0
              then release_jobs run cmd jids (released_count + 1)
                     (s1\<lparr>active_jobs := dict_del jid (active_jobs s1)\<rparr>)
              else release_jobs run cmd jids released_count s1))"

text \<open>
  \<open>if job_ids\<close> holds for a list that is not empty; \<open>None\<close> and the empty list select every
  job whose \<open>type\<close> is \<open>distributed\<close>.
\<close>

definition jobs_to_release :: "state \<Rightarrow> string list option \<Rightarrow> string list" where
  "jobs_to_release s job_ids =
     (case job_ids of
        Some (jid # jids) \<Rightarrow> filter (\<lambda>j. map_of (active_jobs s) j \<noteq> None) (jid # jids)
      | _ \<Rightarrow> map fst (filter (\<lambda>(j, job). j_type job = ''distributed'') (active_jobs s)))"

text \<open>\<open>release_workers\<close>. A success carries \<open>released_jobs\<close> and \<open>message\<close>.\<close>

definition release_workers ::
    "subprocess \<Rightarrow> state \<Rightarrow> string list option \<Rightarrow> (nat \<times> string) reply \<times> state" where
  "release_workers run s job_ids =
     (case command_of s of
        None \<Rightarrow> (Failure ''Deadline not available'', s)
      | Some cmd \<Rightarrow>
          (case release_jobs run cmd (jobs_to_release s job_ids) 0 s of
             (Some e, released_count, s') \<Rightarrow> (Failure e, s')
           | (None, released_count, s') \<Rightarrow>
               (Success
                  (released_count,
                   ''Released '' @ str_nat released_count @ '' worker job(s)''),
                s')))"

section \<open>Well-formed states, traces and scenarios\<close>

text \<open>
  The two dictionaries of a state have one pair for each key, and a worker is stored under
  its own \<open>id\<close>. The initial state is well formed and every operation keeps a state so.
\<close>

definition wf :: "state \<Rightarrow> bool" where
  "wf s =
     (distinct (map fst (claimed_workers s)) \<and> distinct (map fst (active_jobs s))
      \<and> list_all (\<lambda>(k, info). w_id info = k) (claimed_workers s))"

text \<open>A listing includes a worker when one of its records has the worker's \<open>id\<close>.\<close>

definition listed :: "string \<Rightarrow> worker_info list \<Rightarrow> bool" where
  "listed worker_id active_workers = (worker_id \<in> w_id ` set active_workers)"

text \<open>
  A scenario: a configured coordinator claims three workers, the scheduler answers with
  the job \<open>abc123\<close>, three workers register at the times 1, 2 and 3, and the first two send
  a heartbeat at the time 40.
\<close>

definition no_io_error :: config_io where
  "no_io_error = \<lparr>import_error = None, load_error = None, save_error = None\<rparr>"

definition scheduler_accepts :: subprocess where
  "scheduler_accepts argv =
     Returns \<lparr>returncode = 0, proc_stdout = ''Result=Success JobID=abc123'', proc_stderr = []\<rparr>"

definition farm_claimed :: state where
  "farm_claimed =
     snd (claim_workers scheduler_accepts (Returns ''/tmp/comfy'') 0
            (init (Some ''deadlinecommand'') \<lparr>workers = Some []\<rparr>)
            3 ''localhost:8188'' 50 ''none'' ''none'')"

definition farm_registered :: state where
  "farm_registered =
     snd (register_worker no_io_error ''node3'' 3
       (snd (register_worker no_io_error ''node2'' 2
         (snd (register_worker no_io_error ''node1'' 1 farm_claimed
                ''w1'' ''10.0.0.1'' 8289 (Some ''abc123'')))
         ''w2'' ''10.0.0.2'' 8289 (Some ''abc123'')))
       ''w3'' ''10.0.0.3'' 8289 (Some ''abc123''))"

definition farm_one_silent :: state where
  "farm_one_silent =
     snd (worker_heartbeat 40 (snd (worker_heartbeat 40 farm_registered ''w1'')) ''w2'')"

text \<open>
  A trace of calls about one worker after its registration: a heartbeat of the worker or a
  listing, each with the time of the call. \<open>spaced timeout seen es\<close> holds when every call
  of \<open>es\<close> comes less than \<open>timeout\<close> after the latest heartbeat before it, \<open>seen\<close> being
  the time of the registration or of the latest heartbeat so far.
  \<open>listings_include worker_id s es\<close> runs the calls from the state \<open>s\<close> and holds when
  every heartbeat succeeds and every listing includes the worker.
\<close>

datatype event = Heartbeat real | ListActive real

fun spaced :: "real \<Rightarrow> real \<Rightarrow> event list \<Rightarrow> bool" where
  "spaced timeout seen [] = True"
| "spaced timeout seen (Heartbeat t # es) = (t - seen < timeout \<and> spaced timeout t es)"
| "spaced timeout seen (ListActive t # es) = (t - seen < timeout \<and> spaced timeout seen es)"

fun listings_include :: "string \<Rightarrow> state \<Rightarrow> event list \<Rightarrow> bool" where
  "listings_include worker_id s [] = True"
| "listings_include worker_id s (Heartbeat t # es) =
     (fst (worker_heartbeat t s worker_id) = Success ()
      \<and> listings_include worker_id (snd (worker_heartbeat t s worker_id)) es)"
| "listings_include worker_id s (ListActive t # es) =
     (listed worker_id (fst (get_active_workers t s))
      \<and> listings_include worker_id (snd (get_active_workers t s)) es)"

definition steady_heartbeats :: "event list" where
  "steady_heartbeats =
     [Heartbeat 30, ListActive 80, Heartbeat 85, ListActive 140, Heartbeat 144.5, ListActive 200]"

definition worker_one :: worker_info where
  "worker_one =
     \<lparr>w_id = ''w1'', w_ip = ''10.0.0.1'', w_port = 8289, w_job_id = Some ''abc123'',
      last_seen = 1\<rparr>"

text \<open>
  The standard output of the scheduler has a \<open>JobID=\<close> token when one of its white-space
  separated tokens starts with \<open>JobID=\<close>. \<open>scheduler_silent\<close> is a scheduler whose command
  exits with code 0 and prints no job identifier.
\<close>

definition has_jobid_token :: "string \<Rightarrow> bool" where
  "has_jobid_token out = list_ex (\<lambda>line. startswith line ''JobID='') (py_split out)"

definition scheduler_silent :: subprocess where
  "scheduler_silent argv =
     Returns \<lparr>returncode = 0, proc_stdout = ''Submitting job... done'', proc_stderr = []\<rparr>"

text \<open>
  The deletion command of a job is confirmed when it returns with exit code 0, and it
  completes when it returns at all. A job is of the worker-provisioning kind when its
  \<open>type\<close> is \<open>distributed\<close>. \<open>mixed_jobs\<close> is a state with two such jobs and one of
  another kind; \<open>scheduler_deletes_a1\<close> confirms the deletion of the first job only, and
  with \<open>scheduler_times_out\<close> every command raises.
\<close>

definition confirmed :: "subprocess \<Rightarrow> string \<Rightarrow> string \<Rightarrow> bool" where
  "confirmed run cmd jid =
     (case run [cmd, ''-DeleteJob'', jid] of
        Returns result \<Rightarrow> returncode result = 0
      | Raises e \<Rightarrow> False)"

definition completes :: "subprocess \<Rightarrow> string \<Rightarrow> string \<Rightarrow> bool" where
  "completes run cmd jid =
     (case run [cmd, ''-DeleteJob'', jid] of Returns result \<Rightarrow> True | Raises e \<Rightarrow> False)"

definition is_distributed :: "job_data \<Rightarrow> bool" where
  "is_distributed job = (j_type job = ''distributed'')"

definition distributed_jobs :: "state \<Rightarrow> string list" where
  "distributed_jobs s = map fst (filter (\<lambda>(j, job). is_distributed job) (active_jobs s))"

definition mixed_jobs :: state where
  "mixed_jobs =
     (init (Some ''deadlinecommand'') \<lparr>workers = None\<rparr>)
       \<lparr>active_jobs :=
          [(''a1'', \<lparr>j_type = ''distributed'', j_count = 2, j_master_ws = ''localhost:8188'',
                     submitted_at = 1\<rparr>),
           (''b2'', \<lparr>j_type = ''distributed'', j_count = 1, j_master_ws = ''localhost:8188'',
                     submitted_at = 2\<rparr>),
           (''c3'', \<lparr>j_type = ''batch'', j_count = 1, j_master_ws = ''localhost:8188'',
                     submitted_at = 3\<rparr>)]\<rparr>"

definition scheduler_deletes_a1 :: subprocess where
  "scheduler_deletes_a1 argv =
     (if argv = [''deadlinecommand'', ''-DeleteJob'', ''a1'']
      then Returns \<lparr>returncode = 0, proc_stdout = ''Deleted'', proc_stderr = []\<rparr>
      else Returns \<lparr>returncode = 1, proc_stdout = [], proc_stderr = ''Job is locked''\<rparr>)"

definition scheduler_times_out :: subprocess where
  "scheduler_times_out argv = Raises ''Command timed out after 10 seconds''"

text \<open>
  The entries of the shared configuration: \<open>workers_of\<close> is its \<open>workers\<close> list, empty when
  the key is absent, and \<open>has_id\<close> holds for an entry whose \<open>id\<close> is the worker's.
  \<open>add_failure\<close> is the exception that the update of the configuration raises during a
  registration, if any: that of the import, else of the load, else of the save.
  \<open>remove_failure\<close> is the same for an unregistration, where the save is attempted only
  when the configuration has an entry of the worker. \<open>config_unreadable\<close> is a store whose
  load raises; \<open>duplicated_snapshot\<close> is a state whose configuration already has two
  entries of the worker \<open>w1\<close>; \<open>registered_twice\<close> registers \<open>w1\<close> at one address and
  then at another.
\<close>

definition workers_of :: "state \<Rightarrow> worker_entry list" where
  "workers_of s = (case workers (config_file s) of None \<Rightarrow> [] | Some ws \<Rightarrow> ws)"

definition has_id :: "string \<Rightarrow> worker_entry \<Rightarrow> bool" where
  "has_id worker_id worker = (map_of worker ''id'' = Some (JStr worker_id))"

definition add_failure :: "config_io \<Rightarrow> string option" where
  "add_failure cio =
     (case import_error cio of
        Some e \<Rightarrow> Some e
      | None \<Rightarrow> (case load_error cio of Some e \<Rightarrow> Some e | None \<Rightarrow> save_error cio))"

definition remove_failure :: "config_io \<Rightarrow> state \<Rightarrow> string \<Rightarrow> string option" where
  "remove_failure cio s worker_id =
     (case import_error cio of
        Some e \<Rightarrow> Some e
      | None \<Rightarrow>
          (case load_error cio of
             Some e \<Rightarrow> Some e
           | None \<Rightarrow> if list_ex (has_id worker_id) (workers_of s) then save_error cio else None))"

definition config_unreadable :: config_io where
  "config_unreadable =
     \<lparr>import_error = None, load_error = Some ''config unreadable'', save_error = None\<rparr>"

definition duplicated_snapshot :: state where
  "duplicated_snapshot =
     init None
       \<lparr>workers = Some [[(''id'', JStr ''w1''), (''host'', JStr ''10.0.0.7'')],
                        [(''id'', JStr ''w1''), (''host'', JStr ''10.0.0.8'')]]\<rparr>"

definition registered_twice :: "config_io \<Rightarrow> state \<Rightarrow> state" where
  "registered_twice cio s =
     snd (register_worker cio ''node1'' 2
            (snd (register_worker no_io_error ''node1'' 1 s ''w1'' ''10.0.0.1'' 8289 None))
            ''w1'' ''10.0.0.2'' 8290 None)"

text \<open>
  A job file is read line by line, and a line ends at a line feed or at a carriage
  return. \<open>split_where P s\<close> cuts \<open>s\<close> at the characters that satisfy \<open>P\<close>, and
  \<open>file_lines content\<close> is the list of the lines of a file; the empty piece after the
  last line break is no line. A text is free of line breaks when none of its characters
  ends a line.
\<close>

definition line_break :: "char \<Rightarrow> bool" where
  "line_break c = (c = CHR 0x0A \<or> c = CHR 0x0D)"

fun split_where :: "(char \<Rightarrow> bool) \<Rightarrow> string \<Rightarrow> string list" where
  "split_where P [] = [[]]"
| "split_where P (c # cs) =
     (if P c then [] # split_where P cs
      else (case split_where P cs of
              [] \<Rightarrow> [[c]]
            | piece # pieces \<Rightarrow> (c # piece) # pieces))"


definition break_free :: "string \<Rightarrow> bool" where
  "break_free text = (\<not> list_ex line_break text)"






text \<open>
  The words that the fallback pattern accepts: the label \<open>Job ID\<close> in any letter case, one
  or more characters among the colon, the equals sign and white space, and an identifier
  of 24 hexadecimal digits. \<open>labelled lab seps h\<close> holds for the three parts of such a word.
\<close>

definition labelled :: "string \<Rightarrow> string \<Rightarrow> string \<Rightarrow> bool" where
  "labelled lab seps h =
     (map to_lower lab = ''job id'' \<and> seps \<noteq> [] \<and> list_all is_sep seps
      \<and> length h = 24 \<and> list_all is_hex h)"

section \<open>Properties of the model\<close>

subsection \<open>Dictionaries\<close>

lemma map_of_dict_set: "map_of (dict_set k v d) = (map_of d)(k \<mapsto> v)"
  by (induction d) auto

lemma keys_dict_set:
  "map fst (dict_set k v d) = (if k \<in> fst ` set d then map fst d else map fst d @ [k])"
  by (induction d) force+

lemma distinct_dict_set: "distinct (map fst d) \<Longrightarrow> distinct (map fst (dict_set k v d))"
  by (simp add: keys_dict_set)

lemma list_all_dict_set: "list_all P d \<Longrightarrow> P (k, v) \<Longrightarrow> list_all P (dict_set k v d)"
  by (induction d) auto

lemma distinct_dict_del: "distinct (map fst d) \<Longrightarrow> distinct (map fst (dict_del k d))"
  by (simp add: dict_del_def distinct_map_filter)

lemma list_all_dict_del: "list_all P d \<Longrightarrow> list_all P (dict_del k d)"
  by (simp add: dict_del_def list_all_iff)

lemma map_of_dict_del: "map_of (dict_del k d) = (map_of d)(k := None)"
  by (induction d) (auto simp: dict_del_def)

subsection \<open>The sweep of the stale workers\<close>

text \<open>
  The loop returns the records seen less than the timeout ago, after those it started
  with, and deletes the keys of all the others.
\<close>

lemma sweep_eq:
  "sweep now T items acc d =
     (acc @ map snd (filter (\<lambda>(k, info). now - last_seen info < T) items),
      filter (\<lambda>(k, info).
                k \<notin> fst ` set (filter (\<lambda>(k, info). \<not> now - last_seen info < T) items)) d)"
proof (induction items arbitrary: acc d)
  case Nil
  then show ?case by simp
next
  case (Cons item items)
  obtain k info where item: "item = (k, info)" by (cases item)
  show ?case
  proof (cases "now - last_seen info < T")
    case True
    then show ?thesis using Cons.IH[of "acc @ [info]" d] item by simp
  next
    case False
    have "filter (\<lambda>(k', info').
                    k' \<notin> fst ` set (filter (\<lambda>(k, info). \<not> now - last_seen info < T) items))
            (dict_del k d)
          = filter (\<lambda>(k', info').
                      k' \<notin> insert k
                             (fst ` set (filter (\<lambda>(k, info). \<not> now - last_seen info < T) items)))
              d"
      unfolding dict_del_def filter_filter
      by (rule filter_cong) auto
    then show ?thesis using Cons.IH[of acc "dict_del k d"] item False by simp
  qed
qed

lemma distinct_filter_own:
  assumes dist: "distinct (map fst d)"
  shows "filter (\<lambda>(k, v). k \<notin> fst ` set (filter (\<lambda>(k, v). \<not> P v) d)) d
           = filter (\<lambda>(k, v). P v) d"
proof (rule filter_cong[OF refl])
  fix x assume x: "x \<in> set d"
  obtain k v where kv: "x = (k, v)" by (cases x)
  have "k \<in> fst ` set (filter (\<lambda>(k, v). \<not> P v) d) \<longleftrightarrow> \<not> P v"
  proof
    assume "k \<in> fst ` set (filter (\<lambda>(k, v). \<not> P v) d)"
    then obtain v' where v': "(k, v') \<in> set d" "\<not> P v'" by auto
    from dist x kv v'(1) have "v' = v" by (meson eq_key_imp_eq_value)
    with v'(2) show "\<not> P v" by simp
  next
    assume "\<not> P v"
    with x kv show "k \<in> fst ` set (filter (\<lambda>(k, v). \<not> P v) d)" by force
  qed
  then show "(case x of (k, v) \<Rightarrow> k \<notin> fst ` set (filter (\<lambda>(k, v). \<not> P v) d))
               = (case x of (k, v) \<Rightarrow> P v)"
    using kv by simp
qed

lemma get_active_workers_eq:
  assumes "distinct (map fst (claimed_workers s))"
  shows "get_active_workers now s =
           (map snd (filter (\<lambda>(k, info). now - last_seen info < worker_heartbeat_timeout s)
                       (claimed_workers s)),
            s\<lparr>claimed_workers :=
                filter (\<lambda>(k, info). now - last_seen info < worker_heartbeat_timeout s)
                  (claimed_workers s)\<rparr>)"
  unfolding get_active_workers_def sweep_eq
  using distinct_filter_own[OF assms, of "\<lambda>info. now - last_seen info < worker_heartbeat_timeout s"]
  by simp

subsection \<open>Well-formed states\<close>

lemma add_config_registry [simp]:
  "claimed_workers (add_worker_to_distributed_config cio h s wid ip port) = claimed_workers s"
  "active_jobs (add_worker_to_distributed_config cio h s wid ip port) = active_jobs s"
  "worker_heartbeat_timeout (add_worker_to_distributed_config cio h s wid ip port)
     = worker_heartbeat_timeout s"
  "deadline_command (add_worker_to_distributed_config cio h s wid ip port) = deadline_command s"
  "commands (add_worker_to_distributed_config cio h s wid ip port) = commands s"
  by (simp_all add: add_worker_to_distributed_config_def warn_def Let_def split: option.splits)

lemma remove_config_registry [simp]:
  "claimed_workers (remove_worker_from_distributed_config cio s wid) = claimed_workers s"
  "active_jobs (remove_worker_from_distributed_config cio s wid) = active_jobs s"
  "worker_heartbeat_timeout (remove_worker_from_distributed_config cio s wid)
     = worker_heartbeat_timeout s"
  "deadline_command (remove_worker_from_distributed_config cio s wid) = deadline_command s"
  "commands (remove_worker_from_distributed_config cio s wid) = commands s"
  by (simp_all add: remove_worker_from_distributed_config_def warn_def Let_def
      split: option.splits)

lemma wf_init: "wf (init cmd cfg)"
  by (simp add: wf_def init_def)

lemma wf_register: "wf s \<Longrightarrow> wf (snd (register_worker cio h now s wid ip port jid))"
  by (simp add: wf_def register_worker_def Let_def distinct_dict_set list_all_dict_set)

lemma wf_heartbeat:
  assumes wf: "wf s"
  shows "wf (snd (worker_heartbeat now s wid))"
proof (cases "map_of (claimed_workers s) wid")
  case None
  with wf show ?thesis by (simp add: worker_heartbeat_def)
next
  case (Some info)
  then have "(wid, info) \<in> set (claimed_workers s)" by (rule map_of_SomeD)
  with wf have "w_id info = wid" by (auto simp: wf_def list_all_iff)
  with wf Some show ?thesis
    by (simp add: wf_def worker_heartbeat_def distinct_dict_set list_all_dict_set)
qed

lemma wf_unregister: "wf s \<Longrightarrow> wf (snd (unregister_worker cio s wid))"
  by (simp add: wf_def unregister_worker_def Let_def distinct_dict_del list_all_dict_del
      split: option.splits)

lemma wf_get_active_workers: "wf s \<Longrightarrow> wf (snd (get_active_workers now s))"
  by (auto simp: wf_def get_active_workers_eq distinct_map_filter list_all_iff)

subsection \<open>The status report\<close>

text \<open>
  C8. Whenever the scheduler command is configured, the status operation reports as
  \<open>claimed_workers\<close> the number of workers that remain registered after the eviction of
  the stale ones that the same call performs (those seen less than the timeout ago), and
  as \<open>active_jobs\<close> the number of entries of the active-jobs map, which the call leaves
  as it is.
\<close>

theorem status_counts_live_workers_and_jobs:
  assumes "command_of s \<noteq> None" and "wf s"
  shows "\<exists>r s'. get_worker_status now s = (Available r, s')
           \<and> s' = snd (get_active_workers now s)
           \<and> claimed_workers s' =
               filter (\<lambda>(k, info). now - last_seen info < worker_heartbeat_timeout s)
                 (claimed_workers s)
           \<and> st_claimed_workers r = length (claimed_workers s')
           \<and> active_jobs s' = active_jobs s
           \<and> st_active_jobs r = length (active_jobs s')"
proof -
  from assms(2) have dist: "distinct (map fst (claimed_workers s))" by (simp add: wf_def)
  from assms(1) obtain cmd where cmd: "command_of s = Some cmd" by auto
  show ?thesis
    unfolding get_worker_status_def cmd get_active_workers_eq[OF dist]
    by simp
qed

text \<open>
  The scenario of the claim: one job claimed and three workers registered; at the time 70
  the third worker has been silent for 67 seconds, and the status reports one active job
  and the two workers that are left.
\<close>

theorem status_counts_live_workers_and_jobs_witness:
  "command_of farm_one_silent \<noteq> None \<and> wf farm_one_silent
   \<and> length (claimed_workers farm_one_silent) = 3
   \<and> (\<exists>r s'. get_worker_status 70 farm_one_silent = (Available r, s')
         \<and> st_claimed_workers r = 2 \<and> st_active_jobs r = 1
         \<and> map fst (claimed_workers s') = [''w1'', ''w2''])"
proof -
  have c: "command_of farm_one_silent \<noteq> None" by code_simp
  have w: "wf farm_one_silent" by code_simp
  have n: "length (claimed_workers farm_one_silent) = 3" by code_simp
  have f: "filter (\<lambda>(k, info). 70 - last_seen info < worker_heartbeat_timeout farm_one_silent)
             (claimed_workers farm_one_silent)
           = [(''w1'', \<lparr>w_id = ''w1'', w_ip = ''10.0.0.1'', w_port = 8289,
                        w_job_id = Some ''abc123'', last_seen = 40\<rparr>),
              (''w2'', \<lparr>w_id = ''w2'', w_ip = ''10.0.0.2'', w_port = 8289,
                        w_job_id = Some ''abc123'', last_seen = 40\<rparr>)]"
    by code_simp
  have j: "length (active_jobs farm_one_silent) = 1" by code_simp
  from status_counts_live_workers_and_jobs[OF c w, of 70] f j c w n show ?thesis by auto
qed

text \<open>
  C10. Whenever the scheduler command is configured, the status operation reports
  \<open>available_workers = 16\<close> and \<open>total_workers = 16\<close>, whatever the state of the registry
  and of the scheduler: the two numbers are constants and no command is issued.
\<close>

theorem status_farm_size_is_constant:
  assumes "command_of s \<noteq> None"
  shows "\<exists>r s'. get_worker_status now s = (Available r, s')
           \<and> st_available_workers r = 16 \<and> st_total_workers r = 16
           \<and> commands s' = commands s"
proof -
  from assms(1) obtain cmd where cmd: "command_of s = Some cmd" by auto
  obtain ws s' where listing: "get_active_workers now s = (ws, s')"
    by (cases "get_active_workers now s")
  then have "commands s' = commands s"
    by (auto simp: get_active_workers_def split: prod.splits)
  then show ?thesis
    unfolding get_worker_status_def cmd listing
    by simp
qed

theorem status_farm_size_is_constant_witness:
  "command_of farm_registered \<noteq> None
   \<and> (\<exists>r s'. get_worker_status 10 farm_registered = (Available r, s')
         \<and> st_available_workers r = 16 \<and> st_total_workers r = 16
         \<and> commands s' = commands farm_registered)"
proof -
  have c: "command_of farm_registered \<noteq> None" by code_simp
  from status_farm_size_is_constant[OF c, of 10] c show ?thesis by simp
qed

subsection \<open>Liveness of a registered worker\<close>

lemma map_of_filter_value:
  assumes "distinct (map fst d)" and "map_of d k = Some v"
  shows "map_of (filter (\<lambda>(k, v). P v) d) k = (if P v then Some v else None)"
proof (cases "P v")
  case True
  with assms(2) show ?thesis
    using map_of_filter_in[of d k v "\<lambda>k v. P v"] by simp
next
  case False
  have "k \<notin> fst ` set (filter (\<lambda>(k, v). P v) d)"
  proof
    assume "k \<in> fst ` set (filter (\<lambda>(k, v). P v) d)"
    then obtain v' where v': "(k, v') \<in> set d" "P v'" by auto
    from assms(2) have "(k, v) \<in> set d" by (rule map_of_SomeD)
    with assms(1) v'(1) have "v' = v" by (meson eq_key_imp_eq_value)
    with v'(2) False show False by simp
  qed
  then have "map_of (filter (\<lambda>(k, v). P v) d) k = None"
    by (simp add: map_of_eq_None_iff)
  with False show ?thesis by simp
qed

lemma listed_iff_recent:
  assumes wf: "wf s" and reg: "map_of (claimed_workers s) wid = Some info"
  shows "listed wid (fst (get_active_workers now s))
           \<longleftrightarrow> now - last_seen info < worker_heartbeat_timeout s"
proof -
  from wf have dist: "distinct (map fst (claimed_workers s))" by (simp add: wf_def)
  from wf have ids: "\<And>k i. (k, i) \<in> set (claimed_workers s) \<Longrightarrow> w_id i = k"
    by (auto simp: wf_def list_all_iff)
  from reg have mem: "(wid, info) \<in> set (claimed_workers s)" by (rule map_of_SomeD)
  show ?thesis
  proof
    assume "listed wid (fst (get_active_workers now s))"
    then obtain k i where ki: "(k, i) \<in> set (claimed_workers s)"
        "now - last_seen i < worker_heartbeat_timeout s" "w_id i = wid"
      by (auto simp: listed_def get_active_workers_eq[OF dist])
    from ids[OF ki(1)] ki(3) have "k = wid" by simp
    with dist ki(1) mem have "i = info" by (meson eq_key_imp_eq_value)
    with ki(2) show "now - last_seen info < worker_heartbeat_timeout s" by simp
  next
    assume "now - last_seen info < worker_heartbeat_timeout s"
    with mem ids[OF mem] show "listed wid (fst (get_active_workers now s))"
      by (force simp: listed_def get_active_workers_eq[OF dist])
  qed
qed

lemma registry_after_listing:
  assumes wf: "wf s" and reg: "map_of (claimed_workers s) wid = Some info"
  shows "map_of (claimed_workers (snd (get_active_workers now s))) wid
           = (if now - last_seen info < worker_heartbeat_timeout s then Some info else None)"
proof -
  from wf have dist: "distinct (map fst (claimed_workers s))" by (simp add: wf_def)
  show ?thesis
    by (simp add: get_active_workers_eq[OF dist] map_of_filter_value[OF dist reg])
qed

lemma timeout_after_listing [simp]:
  "worker_heartbeat_timeout (snd (get_active_workers now s)) = worker_heartbeat_timeout s"
  by (simp add: get_active_workers_def split: prod.splits)

lemma timeout_after_heartbeat [simp]:
  "worker_heartbeat_timeout (snd (worker_heartbeat now s wid)) = worker_heartbeat_timeout s"
  by (simp add: worker_heartbeat_def split: option.splits)

lemma heartbeat_unknown:
  "map_of (claimed_workers s) wid = None
     \<Longrightarrow> worker_heartbeat now s wid = (Failure ''Worker not found'', s)"
  by (simp add: worker_heartbeat_def)

lemma heartbeat_known:
  assumes "map_of (claimed_workers s) wid = Some info"
  shows "fst (worker_heartbeat now s wid) = Success ()"
    and "map_of (claimed_workers (snd (worker_heartbeat now s wid))) wid
           = Some (info\<lparr>last_seen := now\<rparr>)"
  using assms by (simp_all add: worker_heartbeat_def map_of_dict_set)

lemma spaced_listings:
  assumes "wf s" and "map_of (claimed_workers s) wid = Some info"
    and "spaced (worker_heartbeat_timeout s) (last_seen info) es"
  shows "listings_include wid s es"
  using assms
proof (induction es arbitrary: s info)
  case Nil
  then show ?case by simp
next
  case (Cons e es)
  show ?case
  proof (cases e)
    case (Heartbeat t)
    let ?s' = "snd (worker_heartbeat t s wid)"
    from Cons.prems(3) Heartbeat
    have sp: "spaced (worker_heartbeat_timeout ?s') (last_seen (info\<lparr>last_seen := t\<rparr>)) es"
      by simp
    from Cons.IH[OF wf_heartbeat[OF Cons.prems(1)] heartbeat_known(2)[OF Cons.prems(2)] sp]
      heartbeat_known(1)[OF Cons.prems(2)] Heartbeat
    show ?thesis by simp
  next
    case (ListActive t)
    let ?s' = "snd (get_active_workers t s)"
    from Cons.prems(3) ListActive
    have recent: "t - last_seen info < worker_heartbeat_timeout s"
      and sp: "spaced (worker_heartbeat_timeout ?s') (last_seen info) es"
      by simp_all
    from registry_after_listing[OF Cons.prems(1,2), of t] recent
    have reg': "map_of (claimed_workers ?s') wid = Some info" by simp
    from Cons.IH[OF wf_get_active_workers[OF Cons.prems(1)] reg' sp]
      listed_iff_recent[OF Cons.prems(1,2), of t] recent ListActive
    show ?thesis by simp
  qed
qed

lemma register_record:
  "map_of (claimed_workers (snd (register_worker cio h now s wid ip port jid))) wid
     = Some \<lparr>w_id = wid, w_ip = ip, w_port = port, w_job_id = jid, last_seen = now\<rparr>"
  "worker_heartbeat_timeout (snd (register_worker cio h now s wid ip port jid))
     = worker_heartbeat_timeout s"
  by (simp_all add: register_worker_def Let_def map_of_dict_set)

text \<open>
  C1. In a well-formed state, for a registered worker, the listing of the active workers
  includes the worker exactly when the time since its last recorded heartbeat is within
  the timeout, which the code tests as \<open>now - last_seen < worker_heartbeat_timeout\<close> (60
  seconds from \<open>init\<close>), so that a worker seen exactly the timeout ago is already stale.
  When the listing excludes the worker it also removes the record, and any later heartbeat
  of the worker returns the error \<open>Worker not found\<close>. And after a registration, for every
  sequence of heartbeats and listings in which each call comes less than the timeout
  after the latest heartbeat (or the registration), every heartbeat succeeds and every
  listing includes the worker.
\<close>

theorem worker_listed_while_heartbeat_recent:
  assumes "wf s"
  shows "(\<forall>info now. map_of (claimed_workers s) wid = Some info \<longrightarrow>
            (listed wid (fst (get_active_workers now s))
               \<longleftrightarrow> now - last_seen info < worker_heartbeat_timeout s)
            \<and> (\<not> now - last_seen info < worker_heartbeat_timeout s \<longrightarrow>
                  map_of (claimed_workers (snd (get_active_workers now s))) wid = None
                  \<and> (\<forall>later. worker_heartbeat later (snd (get_active_workers now s)) wid
                        = (Failure ''Worker not found'', snd (get_active_workers now s)))))
         \<and> (\<forall>cio h t0 ip port jid es.
              spaced (worker_heartbeat_timeout s) t0 es \<longrightarrow>
              listings_include wid (snd (register_worker cio h t0 s wid ip port jid)) es)"
proof (intro conjI allI impI)
  fix info now assume reg: "map_of (claimed_workers s) wid = Some info"
  show "listed wid (fst (get_active_workers now s))
          \<longleftrightarrow> now - last_seen info < worker_heartbeat_timeout s"
    by (rule listed_iff_recent[OF assms reg])
next
  fix info now assume reg: "map_of (claimed_workers s) wid = Some info"
    and stale: "\<not> now - last_seen info < worker_heartbeat_timeout s"
  from registry_after_listing[OF assms reg, of now] stale
  show "map_of (claimed_workers (snd (get_active_workers now s))) wid = None" by simp
next
  fix info now later assume reg: "map_of (claimed_workers s) wid = Some info"
    and stale: "\<not> now - last_seen info < worker_heartbeat_timeout s"
  from registry_after_listing[OF assms reg, of now] stale
  have "map_of (claimed_workers (snd (get_active_workers now s))) wid = None" by simp
  then show "worker_heartbeat later (snd (get_active_workers now s)) wid
               = (Failure ''Worker not found'', snd (get_active_workers now s))"
    by (rule heartbeat_unknown)
next
  fix cio h t0 ip port jid es
  assume sp: "spaced (worker_heartbeat_timeout s) t0 es"
  let ?s1 = "snd (register_worker cio h t0 s wid ip port jid)"
  let ?info = "\<lparr>w_id = wid, w_ip = ip, w_port = port, w_job_id = jid, last_seen = t0\<rparr>"
  from sp have "spaced (worker_heartbeat_timeout ?s1) (last_seen ?info) es"
    by (simp add: register_record(2))
  from spaced_listings[OF wf_register[OF assms] register_record(1) this]
  show "listings_include wid ?s1 es" .
qed

theorem worker_listed_while_heartbeat_recent_witness:
  "wf farm_registered \<and> wf farm_claimed
   \<and> map_of (claimed_workers farm_registered) ''w1'' = Some worker_one
   \<and> listed ''w1'' (fst (get_active_workers 60.5 farm_registered))
   \<and> \<not> listed ''w1'' (fst (get_active_workers 61 farm_registered))
   \<and> map_of (claimed_workers (snd (get_active_workers 61 farm_registered))) ''w1'' = None
   \<and> worker_heartbeat 62 (snd (get_active_workers 61 farm_registered)) ''w1''
         = (Failure ''Worker not found'', snd (get_active_workers 61 farm_registered))
   \<and> spaced (worker_heartbeat_timeout farm_claimed) 1 steady_heartbeats
   \<and> listings_include ''w1''
         (snd (register_worker no_io_error ''node1'' 1 farm_claimed
                 ''w1'' ''10.0.0.1'' 8289 (Some ''abc123'')))
         steady_heartbeats"
proof -
  have w: "wf farm_registered" by code_simp
  have w0: "wf farm_claimed" by code_simp
  have r: "map_of (claimed_workers farm_registered) ''w1'' = Some worker_one" by code_simp
  have recent: "60.5 - last_seen worker_one < worker_heartbeat_timeout farm_registered"
    by code_simp
  have stale: "\<not> 61 - last_seen worker_one < worker_heartbeat_timeout farm_registered"
    by code_simp
  have sp: "spaced (worker_heartbeat_timeout farm_claimed) 1 steady_heartbeats" by code_simp
  note registered = worker_listed_while_heartbeat_recent[OF w, of "''w1''"]
  note claimed = worker_listed_while_heartbeat_recent[OF w0, of "''w1''"]
  from registered r recent
  have a: "listed ''w1'' (fst (get_active_workers 60.5 farm_registered))" by blast
  from registered r stale
  have b: "\<not> listed ''w1'' (fst (get_active_workers 61 farm_registered))" by blast
  from registered r stale
  have c: "map_of (claimed_workers (snd (get_active_workers 61 farm_registered))) ''w1'' = None"
    by blast
  from registered r stale
  have d: "worker_heartbeat 62 (snd (get_active_workers 61 farm_registered)) ''w1''
             = (Failure ''Worker not found'', snd (get_active_workers 61 farm_registered))"
    by blast
  from claimed sp
  have e: "listings_include ''w1''
             (snd (register_worker no_io_error ''node1'' 1 farm_claimed
                     ''w1'' ''10.0.0.1'' 8289 (Some ''abc123'')))
             steady_heartbeats"
    by blast
  from w w0 r a b c d sp e show ?thesis by blast
qed

subsection \<open>Claiming workers\<close>

lemma first_jobid_token_None:
  "first_jobid_token toks = None \<longleftrightarrow> \<not> list_ex (\<lambda>line. startswith line ''JobID='') toks"
  by (induction toks) auto

lemma extract_nothing:
  assumes "\<not> has_jobid_token out" and "re_search out = None"
  shows "extract_job_id out = []"
  using assms by (simp add: extract_job_id_def has_jobid_token_def first_jobid_token_None[symmetric])

lemma claim_no_id_reply:
  assumes "command_of s = Some cmd"
    and "run [cmd, ''-SubmitJob'', os_path_join temp_dir ''job_info.txt'',
              os_path_join temp_dir ''plugin_info.txt'',
              os_path_join temp_dir ''worker_registration.json''] = Returns result"
    and "returncode result = 0"
    and "extract_job_id (proc_stdout result) = []"
  shows "fst (claim_workers run (Returns temp_dir) now s cnt master_ws priority pool grp)
           = Failure ''Job submitted but JobID not found in output''"
  by (simp add: claim_workers_def create_worker_job_files_def Let_def issue_def assms)

lemma claim_no_id_jobs:
  assumes "command_of s = Some cmd"
    and "run [cmd, ''-SubmitJob'', os_path_join temp_dir ''job_info.txt'',
              os_path_join temp_dir ''plugin_info.txt'',
              os_path_join temp_dir ''worker_registration.json''] = Returns result"
    and "returncode result = 0"
    and "extract_job_id (proc_stdout result) = []"
  shows "active_jobs
           (snd (claim_workers run (Returns temp_dir) now s cnt master_ws priority pool grp))
           = active_jobs s"
  by (simp add: claim_workers_def create_worker_job_files_def Let_def issue_def assms)

text \<open>
  C2. When the submission command exits with code 0 and its standard output yields no job
  identifier (no token that starts with \<open>JobID=\<close> and no match of the fallback pattern),
  \<open>claim_workers\<close> returns a failure whose error, \<open>Job submitted but JobID not found in
  output\<close>, is neither the error of a failed submission nor that of a missing scheduler,
  and the active-jobs map is left as it was.
\<close>

theorem claim_without_job_id:
  assumes cfg: "command_of s = Some cmd"
    and ran: "run [cmd, ''-SubmitJob'', os_path_join temp_dir ''job_info.txt'',
              os_path_join temp_dir ''plugin_info.txt'',
              os_path_join temp_dir ''worker_registration.json''] = Returns result"
    and zero: "returncode result = 0"
    and no_token: "\<not> has_jobid_token (proc_stdout result)"
    and no_match: "re_search (proc_stdout result) = None"
  shows "fst (claim_workers run (Returns temp_dir) now s cnt master_ws priority pool grp)
           = Failure ''Job submitted but JobID not found in output''
         \<and> active_jobs (snd (claim_workers run (Returns temp_dir) now s cnt master_ws priority pool grp))
           = active_jobs s
         \<and> (\<forall>code err. ''Job submitted but JobID not found in output''
               \<noteq> ''Deadline submission failed with code '' @ str_int code @ '': '' @ err)
         \<and> ''Job submitted but JobID not found in output'' \<noteq> ''Deadline not available''"
proof -
  have no_id: "extract_job_id (proc_stdout result) = []"
    using no_token no_match by (rule extract_nothing)
  have reply: "fst (claim_workers run (Returns temp_dir) now s cnt master_ws priority pool grp)
           = Failure ''Job submitted but JobID not found in output''"
    using cfg ran zero no_id by (rule claim_no_id_reply[where run = run])
  have jobs: "active_jobs (snd (claim_workers run (Returns temp_dir) now s cnt master_ws priority pool grp))
           = active_jobs s"
    using cfg ran zero no_id by (rule claim_no_id_jobs[where run = run])
  from reply jobs show ?thesis by simp
qed

theorem claim_without_job_id_witness:
  "command_of (init (Some ''deadlinecommand'') \<lparr>workers = None\<rparr>) = Some ''deadlinecommand''
   \<and> \<not> has_jobid_token ''Submitting job... done''
   \<and> re_search ''Submitting job... done'' = None
   \<and> fst (claim_workers scheduler_silent (Returns ''/tmp/comfy'') 5
             (init (Some ''deadlinecommand'') \<lparr>workers = None\<rparr>) 3 ''localhost:8188'' 50 ''none'' ''none'')
        = Failure ''Job submitted but JobID not found in output''
   \<and> active_jobs (snd (claim_workers scheduler_silent (Returns ''/tmp/comfy'') 5
             (init (Some ''deadlinecommand'') \<lparr>workers = None\<rparr>) 3 ''localhost:8188'' 50 ''none'' ''none''))
        = []"
proof -
  let ?s = "init (Some ''deadlinecommand'') \<lparr>workers = None\<rparr>"
  let ?r = "\<lparr>returncode = 0, proc_stdout = ''Submitting job... done'', proc_stderr = []\<rparr>"
  have c: "command_of ?s = Some ''deadlinecommand''" by code_simp
  have r: "scheduler_silent [''deadlinecommand'', ''-SubmitJob'', os_path_join ''/tmp/comfy'' ''job_info.txt'',
              os_path_join ''/tmp/comfy'' ''plugin_info.txt'',
              os_path_join ''/tmp/comfy'' ''worker_registration.json''] = Returns ?r"
    by (simp add: scheduler_silent_def)
  have z: "returncode ?r = 0" by simp
  have t: "\<not> has_jobid_token (proc_stdout ?r)" by code_simp
  have f: "re_search (proc_stdout ?r) = None" by code_simp
  have e: "active_jobs ?s = []" by (simp add: init_def)
  from claim_without_job_id[where run = scheduler_silent and s = "?s" and result = "?r"
        and temp_dir = "''/tmp/comfy''" and cmd = "''deadlinecommand''", OF c r z t f,
        of 5 3 "''localhost:8188''" 50 "''none''" "''none''"] c t f e
  show ?thesis by simp
qed

subsection \<open>Releasing workers\<close>

lemma str_nat_0: "str_nat 0 = ''0''"
  by (simp add: str_nat.simps digit_char_def)

text \<open>
  C7, as amended. Whenever the scheduler command is configured, \<open>release_workers\<close> called
  with a list that holds only a job id absent from the active-jobs map returns a success
  with \<open>released_jobs = 0\<close> and leaves the whole state, the active-jobs map included, as
  it was.
\<close>

theorem release_unknown_job:
  assumes "command_of s \<noteq> None" and "map_of (active_jobs s) jid = None"
  shows "release_workers run s (Some [jid]) = (Success (0, ''Released 0 worker job(s)''), s)"
proof -
  from assms(1) obtain cmd where cmd: "command_of s = Some cmd" by auto
  show ?thesis
    using assms(2) by (simp add: release_workers_def cmd jobs_to_release_def str_nat_0)
qed

theorem release_unknown_job_witness:
  "command_of farm_claimed \<noteq> None \<and> map_of (active_jobs farm_claimed) ''nojob'' = None
   \<and> release_workers scheduler_accepts farm_claimed (Some [''nojob''])
       = (Success (0, ''Released 0 worker job(s)''), farm_claimed)"
proof -
  have c: "command_of farm_claimed \<noteq> None" by code_simp
  have m: "map_of (active_jobs farm_claimed) ''nojob'' = None" by code_simp
  from release_unknown_job[OF c m] c m show ?thesis by simp
qed

text \<open>
  C7 as stated fails where no scheduler command was found: the guard at the start of
  \<open>release_workers\<close> answers with the error \<open>Deadline not available\<close>.
\<close>

theorem release_unknown_job_unconfigured:
  "map_of (active_jobs (init None \<lparr>workers = None\<rparr>)) ''nojob'' = None
   \<and> release_workers scheduler_accepts (init None \<lparr>workers = None\<rparr>) (Some [''nojob''])
       = (Failure ''Deadline not available'', init None \<lparr>workers = None\<rparr>)"
  by (simp add: release_workers_def command_of_def init_def)

lemma release_jobs_eq:
  assumes "\<forall>j\<in>set jids. completes run cmd j"
  shows "release_jobs run cmd jids n s =
           (None, n + length (filter (confirmed run cmd) jids),
            s\<lparr>active_jobs :=
                 filter (\<lambda>(j, job). \<not> (j \<in> set jids \<and> confirmed run cmd j)) (active_jobs s),
               commands := commands s @ map (\<lambda>j. [cmd, ''-DeleteJob'', j]) jids\<rparr>)"
  using assms
proof (induction jids arbitrary: n s)
  case Nil
  then show ?case by simp
next
  case (Cons jid jids)
  from Cons.prems obtain result where ran: "run [cmd, ''-DeleteJob'', jid] = Returns result"
    by (auto simp: completes_def split: io.splits)
  from Cons.prems have rest: "\<forall>j\<in>set jids. completes run cmd j" by simp
  show ?case
  proof (cases "returncode result = 0")
    case True
    then have conf: "confirmed run cmd jid" by (simp add: confirmed_def ran)
    have jobs: "filter (\<lambda>(j, job). \<not> (j \<in> set jids \<and> confirmed run cmd j))
                  (dict_del jid (active_jobs s))
                = filter (\<lambda>(j, job). \<not> (j \<in> set (jid # jids) \<and> confirmed run cmd j))
                    (active_jobs s)"
      unfolding dict_del_def filter_filter
      using conf by (intro filter_cong) auto
    show ?thesis
      using True conf jobs
      by (simp add: ran Cons.IH[OF rest] issue_def)
  next
    case False
    then have conf: "\<not> confirmed run cmd jid" by (simp add: confirmed_def ran)
    have jobs: "filter (\<lambda>(j, job). \<not> (j \<in> set jids \<and> confirmed run cmd j)) (active_jobs s)
                = filter (\<lambda>(j, job). \<not> (j \<in> set (jid # jids) \<and> confirmed run cmd j))
                    (active_jobs s)"
      using conf by (intro filter_cong) auto
    show ?thesis
      using False conf jobs
      by (simp add: ran Cons.IH[OF rest] issue_def)
  qed
qed

lemma filter_own_kind:
  assumes "distinct (map fst d)"
  shows "filter (\<lambda>(j, job). \<not> (j \<in> set (map fst (filter (\<lambda>(j, job). P job) d)) \<and> Q j)) d
           = filter (\<lambda>(j, job). \<not> (P job \<and> Q j)) d"
proof (rule filter_cong[OF refl])
  fix x assume x: "x \<in> set d"
  obtain j job where jj: "x = (j, job)" by (cases x)
  have "j \<in> set (map fst (filter (\<lambda>(j, job). P job) d)) \<longleftrightarrow> P job"
  proof
    assume "j \<in> set (map fst (filter (\<lambda>(j, job). P job) d))"
    then obtain job' where j': "(j, job') \<in> set d" "P job'" by auto
    from assms x jj j'(1) have "job' = job" by (meson eq_key_imp_eq_value)
    with j'(2) show "P job" by simp
  next
    assume "P job"
    with x jj show "j \<in> set (map fst (filter (\<lambda>(j, job). P job) d))" by force
  qed
  then show "(case x of (j, job) \<Rightarrow>
                \<not> (j \<in> set (map fst (filter (\<lambda>(j, job). P job) d)) \<and> Q j))
             = (case x of (j, job) \<Rightarrow> \<not> (P job \<and> Q j))"
    using jj by simp
qed

lemma length_filter_keys:
  "length (filter Q (map fst (filter (\<lambda>(j, job). P job) d)))
     = length (filter (\<lambda>(j, job). P job \<and> Q j) d)"
  by (induction d) auto


text \<open>
  C4, as amended. Whenever the scheduler command is configured and no deletion command
  raises, \<open>release_workers\<close> called with no job ids (\<open>None\<close> or an empty list) issues one
  deletion command for each active job whose \<open>type\<close> is \<open>distributed\<close>, in the order of
  the map, and for no other job; it removes from the active-jobs map exactly the
  distributed jobs whose deletion the scheduler confirms with exit code 0, so that the
  failed ones and the jobs of other kinds stay; and it returns a success whose
  \<open>released_jobs\<close> is the number of jobs so removed.
\<close>

theorem release_all_distributed:
  assumes "command_of s = Some cmd" and "wf s"
    and "job_ids = None \<or> job_ids = Some []"
    and "\<forall>j\<in>set (distributed_jobs s). completes run cmd j"
  shows "\<exists>s'. release_workers run s job_ids
                = (Success
                     (length (filter (\<lambda>(j, job). is_distributed job \<and> confirmed run cmd j)
                                (active_jobs s)),
                      ''Released ''
                        @ str_nat (length (filter (\<lambda>(j, job). is_distributed job
                                                      \<and> confirmed run cmd j) (active_jobs s)))
                        @ '' worker job(s)''),
                   s')
              \<and> commands s' = commands s @ map (\<lambda>j. [cmd, ''-DeleteJob'', j]) (distributed_jobs s)
              \<and> active_jobs s' =
                  filter (\<lambda>(j, job). \<not> (is_distributed job \<and> confirmed run cmd j)) (active_jobs s)
              \<and> claimed_workers s' = claimed_workers s"
proof -
  from assms(2) have dist: "distinct (map fst (active_jobs s))" by (simp add: wf_def)
  from assms(3) have sel: "jobs_to_release s job_ids = distributed_jobs s"
    by (auto simp: jobs_to_release_def distributed_jobs_def is_distributed_def)
  have loop: "release_jobs run cmd (distributed_jobs s) 0 s =
           (None, 0 + length (filter (confirmed run cmd) (distributed_jobs s)),
            s\<lparr>active_jobs :=
                 filter (\<lambda>(j, job). \<not> (j \<in> set (distributed_jobs s) \<and> confirmed run cmd j))
                   (active_jobs s),
               commands := commands s @ map (\<lambda>j. [cmd, ''-DeleteJob'', j]) (distributed_jobs s)\<rparr>)"
    by (rule release_jobs_eq[OF assms(4)])
  have n: "length (filter (confirmed run cmd) (distributed_jobs s))
             = length (filter (\<lambda>(j, job). is_distributed job \<and> confirmed run cmd j)
                         (active_jobs s))"
    unfolding distributed_jobs_def by (rule length_filter_keys)
  have jobs: "filter (\<lambda>(j, job). \<not> (j \<in> set (distributed_jobs s) \<and> confirmed run cmd j))
                (active_jobs s)
              = filter (\<lambda>(j, job). \<not> (is_distributed job \<and> confirmed run cmd j)) (active_jobs s)"
    unfolding distributed_jobs_def by (rule filter_own_kind[OF dist])
  show ?thesis
    using n jobs by (simp add: release_workers_def assms(1) sel loop)
qed

theorem release_all_distributed_witness:
  "command_of mixed_jobs = Some ''deadlinecommand'' \<and> wf mixed_jobs
   \<and> list_all (completes scheduler_deletes_a1 ''deadlinecommand'') (distributed_jobs mixed_jobs)
   \<and> (\<exists>s'. release_workers scheduler_deletes_a1 mixed_jobs None
                = (Success (1, ''Released 1 worker job(s)''), s')
          \<and> commands s' = [[''deadlinecommand'', ''-DeleteJob'', ''a1''],
                             [''deadlinecommand'', ''-DeleteJob'', ''b2'']]
          \<and> map fst (active_jobs s') = [''b2'', ''c3''])"
proof -
  have c: "command_of mixed_jobs = Some ''deadlinecommand''" by code_simp
  have w: "wf mixed_jobs" by code_simp
  have k: "(None :: string list option) = None \<or> (None :: string list option) = Some []" by simp
  have d: "distributed_jobs mixed_jobs = [''a1'', ''b2'']" by code_simp
  have p: "\<forall>j\<in>set (distributed_jobs mixed_jobs). completes scheduler_deletes_a1 ''deadlinecommand'' j"
    unfolding d by (simp add: completes_def scheduler_deletes_a1_def)
  have f: "filter (\<lambda>(j, job). is_distributed job \<and> confirmed scheduler_deletes_a1 ''deadlinecommand'' j)
             (active_jobs mixed_jobs)
           = [(''a1'', \<lparr>j_type = ''distributed'', j_count = 2, j_master_ws = ''localhost:8188'',
                        submitted_at = 1\<rparr>)]"
    by code_simp
  have g: "map fst (filter (\<lambda>(j, job). \<not> (is_distributed job
                                   \<and> confirmed scheduler_deletes_a1 ''deadlinecommand'' j))
             (active_jobs mixed_jobs)) = [''b2'', ''c3'']"
    by code_simp
  have e: "commands mixed_jobs = []" by code_simp
  have one: "str_nat (Suc 0) = ''1''" by (simp add: str_nat.simps digit_char_def)
  from release_all_distributed[where run = scheduler_deletes_a1, OF c w k p]
  obtain s' where s': "release_workers scheduler_deletes_a1 mixed_jobs None
                = (Success
                     (length (filter (\<lambda>(j, job). is_distributed job
                                \<and> confirmed scheduler_deletes_a1 ''deadlinecommand'' j)
                                (active_jobs mixed_jobs)),
                      ''Released ''
                        @ str_nat (length (filter (\<lambda>(j, job). is_distributed job
                                \<and> confirmed scheduler_deletes_a1 ''deadlinecommand'' j)
                                (active_jobs mixed_jobs)))
                        @ '' worker job(s)''),
                   s')"
    and cs: "commands s' = commands mixed_jobs
               @ map (\<lambda>j. [''deadlinecommand'', ''-DeleteJob'', j]) (distributed_jobs mixed_jobs)"
    and js: "active_jobs s' =
                  filter (\<lambda>(j, job). \<not> (is_distributed job
                            \<and> confirmed scheduler_deletes_a1 ''deadlinecommand'' j))
                    (active_jobs mixed_jobs)"
    by blast
  from s' have r: "release_workers scheduler_deletes_a1 mixed_jobs None
                = (Success (1, ''Released 1 worker job(s)''), s')"
    unfolding f by (simp add: one)
  from cs have cs': "commands s' = [[''deadlinecommand'', ''-DeleteJob'', ''a1''],
                             [''deadlinecommand'', ''-DeleteJob'', ''b2'']]"
    unfolding d e by simp
  from js g have js': "map fst (active_jobs s') = [''b2'', ''c3'']" by simp
  have "\<exists>s'. release_workers scheduler_deletes_a1 mixed_jobs None
                = (Success (1, ''Released 1 worker job(s)''), s')
          \<and> commands s' = [[''deadlinecommand'', ''-DeleteJob'', ''a1''],
                             [''deadlinecommand'', ''-DeleteJob'', ''b2'']]
          \<and> map fst (active_jobs s') = [''b2'', ''c3'']"
    by (rule exI[of _ s']) (simp add: r cs' js')
  with c w p show ?thesis by (simp add: list_all_iff)
qed

text \<open>
  C4 as stated fails in two ways. Where no scheduler command was found, the guard answers
  with the error \<open>Deadline not available\<close> and no count. And when a deletion command
  raises, here by timing out on the first job, the handler answers with the text of the
  exception: no count is returned and the second distributed job is not attempted.
\<close>

theorem release_all_unconfigured_or_raising:
  "release_workers scheduler_accepts (init None \<lparr>workers = None\<rparr>) None
     = (Failure ''Deadline not available'', init None \<lparr>workers = None\<rparr>)
   \<and> distributed_jobs mixed_jobs = [''a1'', ''b2'']
   \<and> fst (release_workers scheduler_times_out mixed_jobs None)
       = Failure ''Command timed out after 10 seconds''
   \<and> commands (snd (release_workers scheduler_times_out mixed_jobs None))
       = [[''deadlinecommand'', ''-DeleteJob'', ''a1'']]"
  by code_simp

subsection \<open>The mirror of the registry in the shared configuration\<close>

lemma add_failed:
  assumes "add_failure cio = Some e"
  shows "add_worker_to_distributed_config cio h s wid ip port
           = warn (''Warning: Could not add worker to distributed config: '' @ e) s"
  using assms
  by (auto simp: add_worker_to_distributed_config_def add_failure_def Let_def
      split: option.splits)

lemma filter_length_less: "length (filter P xs) < length xs \<longleftrightarrow> list_ex (\<lambda>x. \<not> P x) xs"
  by (induction xs) (auto simp: less_Suc_eq_le)

lemma remove_failed:
  assumes "remove_failure cio s wid = Some e"
  shows "remove_worker_from_distributed_config cio s wid
           = warn (''Warning: Could not remove worker from distributed config: '' @ e) s"
proof (cases "import_error cio")
  case (Some e')
  with assms show ?thesis
    by (simp add: remove_worker_from_distributed_config_def remove_failure_def)
next
  case None
  note imp = None
  show ?thesis
  proof (cases "load_error cio")
    case (Some e')
    with assms imp show ?thesis
      by (simp add: remove_worker_from_distributed_config_def remove_failure_def)
  next
    case None
    with assms imp have ex: "list_ex (has_id wid) (workers_of s)" and sv: "save_error cio = Some e"
      by (auto simp: remove_failure_def split: if_splits)
    from ex obtain ws where ws: "workers (config_file s) = Some ws" "list_ex (has_id wid) ws"
      by (auto simp: workers_of_def split: option.splits)
    from ws(2) have "length (filter (\<lambda>w. map_of w ''id'' \<noteq> Some (JStr wid)) ws) < length ws"
      by (simp add: filter_length_less list_ex_iff has_id_def)
    with imp None sv ws(1) show ?thesis
      by (simp add: remove_worker_from_distributed_config_def Let_def)
  qed
qed

text \<open>
  C5. For every worker id and every outcome of the configuration store,
  \<open>register_worker\<close> returns its success and records the worker; and for a registered
  worker \<open>unregister_worker\<close> returns its success and removes the record. When the update
  of the shared configuration raises, at the import, the load or the save, the exception
  is caught: its text is logged as a warning, the configuration is left as it was, and
  the reply and the registry are the same as when nothing fails.
\<close>

theorem snapshot_failure_is_swallowed:
  shows "fst (register_worker cio h now s wid ip port jid)
           = Success (''Worker '' @ wid @ '' registered and added to distributed config'')
         \<and> map_of (claimed_workers (snd (register_worker cio h now s wid ip port jid))) wid
           = Some \<lparr>w_id = wid, w_ip = ip, w_port = port, w_job_id = jid, last_seen = now\<rparr>
         \<and> (\<forall>e. add_failure cio = Some e \<longrightarrow>
               warnings (snd (register_worker cio h now s wid ip port jid))
                 = warnings s @ [''Warning: Could not add worker to distributed config: '' @ e]
               \<and> config_file (snd (register_worker cio h now s wid ip port jid)) = config_file s)
         \<and> (map_of (claimed_workers s) wid \<noteq> None \<longrightarrow>
               fst (unregister_worker cio s wid) = Success (''Worker '' @ wid @ '' unregistered'')
               \<and> map_of (claimed_workers (snd (unregister_worker cio s wid))) wid = None
               \<and> (\<forall>e. remove_failure cio s wid = Some e \<longrightarrow>
                     warnings (snd (unregister_worker cio s wid))
                       = warnings s
                           @ [''Warning: Could not remove worker from distributed config: '' @ e]
                     \<and> config_file (snd (unregister_worker cio s wid)) = config_file s))"
proof (intro conjI allI impI)
  show "fst (register_worker cio h now s wid ip port jid)
           = Success (''Worker '' @ wid @ '' registered and added to distributed config'')"
    by (simp add: register_worker_def Let_def)
  show "map_of (claimed_workers (snd (register_worker cio h now s wid ip port jid))) wid
           = Some \<lparr>w_id = wid, w_ip = ip, w_port = port, w_job_id = jid, last_seen = now\<rparr>"
    by (rule register_record(1))
next
  fix e assume f: "add_failure cio = Some e"
  show "warnings (snd (register_worker cio h now s wid ip port jid))
          = warnings s @ [''Warning: Could not add worker to distributed config: '' @ e]"
    by (simp add: register_worker_def Let_def add_failed[OF f] warn_def)
  show "config_file (snd (register_worker cio h now s wid ip port jid)) = config_file s"
    by (simp add: register_worker_def Let_def add_failed[OF f] warn_def)
next
  assume reg: "map_of (claimed_workers s) wid \<noteq> None"
  then show "fst (unregister_worker cio s wid) = Success (''Worker '' @ wid @ '' unregistered'')"
    by (auto simp: unregister_worker_def Let_def)
  from reg show "map_of (claimed_workers (snd (unregister_worker cio s wid))) wid = None"
    by (auto simp: unregister_worker_def Let_def map_of_dict_del)
next
  fix e assume reg: "map_of (claimed_workers s) wid \<noteq> None"
    and f: "remove_failure cio s wid = Some e"
  let ?s1 = "s\<lparr>claimed_workers := dict_del wid (claimed_workers s)\<rparr>"
  have "remove_failure cio ?s1 wid = remove_failure cio s wid"
    by (simp add: remove_failure_def workers_of_def)
  with f have f1: "remove_failure cio ?s1 wid = Some e" by simp
  from reg show "warnings (snd (unregister_worker cio s wid))
          = warnings s @ [''Warning: Could not remove worker from distributed config: '' @ e]"
    by (auto simp: unregister_worker_def Let_def remove_failed[OF f1] warn_def)
  from reg show "config_file (snd (unregister_worker cio s wid)) = config_file s"
    by (auto simp: unregister_worker_def Let_def remove_failed[OF f1] warn_def)
qed


theorem snapshot_failure_is_swallowed_witness:
  "add_failure config_unreadable = Some ''config unreadable''
   \<and> map_of (claimed_workers farm_registered) ''w1'' \<noteq> None
   \<and> remove_failure config_unreadable farm_registered ''w1'' = Some ''config unreadable''
   \<and> fst (register_worker config_unreadable ''node4'' 5 farm_registered
             ''w4'' ''10.0.0.4'' 8289 None)
       = Success ''Worker w4 registered and added to distributed config''
   \<and> warnings (snd (register_worker config_unreadable ''node4'' 5 farm_registered
                       ''w4'' ''10.0.0.4'' 8289 None))
       = [''Warning: Could not add worker to distributed config: config unreadable'']
   \<and> fst (unregister_worker config_unreadable farm_registered ''w1'')
       = Success ''Worker w1 unregistered''
   \<and> warnings (snd (unregister_worker config_unreadable farm_registered ''w1''))
       = [''Warning: Could not remove worker from distributed config: config unreadable'']"
proof -
  have a: "add_failure config_unreadable = Some ''config unreadable''" by code_simp
  have r: "map_of (claimed_workers farm_registered) ''w1'' \<noteq> None" by code_simp
  have f: "remove_failure config_unreadable farm_registered ''w1'' = Some ''config unreadable''"
    by code_simp
  have w: "warnings farm_registered = []" by code_simp
  note reg = snapshot_failure_is_swallowed[of config_unreadable "''node4''" 5 farm_registered
      "''w4''" "''10.0.0.4''" 8289 None]
  note unreg = snapshot_failure_is_swallowed[of config_unreadable "''node4''" 5 farm_registered
      "''w1''" "''10.0.0.4''" 8289 None]
  from reg a have r1: "fst (register_worker config_unreadable ''node4'' 5 farm_registered
             ''w4'' ''10.0.0.4'' 8289 None)
       = Success (''Worker '' @ ''w4'' @ '' registered and added to distributed config'')"
    by blast
  from reg a have r2: "warnings (snd (register_worker config_unreadable ''node4'' 5 farm_registered
                       ''w4'' ''10.0.0.4'' 8289 None))
       = warnings farm_registered
           @ [''Warning: Could not add worker to distributed config: '' @ ''config unreadable'']"
    by blast
  from unreg r f have u1: "fst (unregister_worker config_unreadable farm_registered ''w1'')
       = Success (''Worker '' @ ''w1'' @ '' unregistered'')"
    by blast
  from unreg r f have u2: "warnings (snd (unregister_worker config_unreadable farm_registered ''w1''))
       = warnings farm_registered
           @ [''Warning: Could not remove worker from distributed config: ''
                @ ''config unreadable'']"
    by blast
  from a r f r1 r2 u1 u2 show ?thesis by (simp add: w)
qed

lemma has_id_worker_config: "has_id wid (worker_config h wid ip port)"
  by (simp add: has_id_def worker_config_def)

lemma existing_worker_None:
  "existing_worker wid ws = None \<longleftrightarrow> filter (has_id wid) ws = []"
  by (induction ws) (auto simp: has_id_def)

lemma replace_existing_length:
  assumes "existing_worker wid ws = Some i" and "has_id wid e"
  shows "length (filter (has_id wid) (ws[i := e])) = length (filter (has_id wid) ws)"
  using assms
proof (induction ws arbitrary: i)
  case Nil
  then show ?case by simp
next
  case (Cons w ws)
  show ?case
  proof (cases "has_id wid w")
    case True
    with Cons.prems show ?thesis by (simp add: has_id_def)
  next
    case False
    with Cons.prems obtain i' where i': "existing_worker wid ws = Some i'" "i = Suc i'"
      by (auto simp: has_id_def)
    from Cons.IH[OF i'(1) Cons.prems(2)] False i'(2) show ?thesis by simp
  qed
qed

lemma replace_existing_single:
  assumes "existing_worker wid ws = Some i" and "has_id wid e"
    and "length (filter (has_id wid) ws) \<le> 1"
  shows "filter (has_id wid) (ws[i := e]) = [e]"
  using assms
proof (induction ws arbitrary: i)
  case Nil
  then show ?case by simp
next
  case (Cons w ws)
  show ?case
  proof (cases "has_id wid w")
    case True
    with Cons.prems show ?thesis by (simp add: has_id_def)
  next
    case False
    with Cons.prems obtain i' where i': "existing_worker wid ws = Some i'" "i = Suc i'"
      by (auto simp: has_id_def)
    from Cons.prems(3) False have "length (filter (has_id wid) ws) \<le> 1" by simp
    from Cons.IH[OF i'(1) Cons.prems(2) this] False i'(2) show ?thesis by simp
  qed
qed

lemma add_succeeded:
  assumes "add_failure cio = None"
  shows "workers_of (add_worker_to_distributed_config cio h s wid ip port)
           = (case existing_worker wid (workers_of s) of
                Some i \<Rightarrow> (workers_of s)[i := worker_config h wid ip port]
              | None \<Rightarrow> workers_of s @ [worker_config h wid ip port])"
  using assms
  by (auto simp: add_worker_to_distributed_config_def add_failure_def Let_def workers_of_def
      split: option.splits)

lemma add_count:
  "length (filter (has_id wid) (workers_of (add_worker_to_distributed_config cio h s wid ip port)))
     = (case add_failure cio of
          None \<Rightarrow> max 1 (length (filter (has_id wid) (workers_of s)))
        | Some e \<Rightarrow> length (filter (has_id wid) (workers_of s)))"
proof (cases "add_failure cio")
  case (Some e)
  then show ?thesis by (simp add: add_failed workers_of_def warn_def)
next
  case None
  show ?thesis
  proof (cases "existing_worker wid (workers_of s)")
    case no: None
    then have "filter (has_id wid) (workers_of s) = []" by (simp add: existing_worker_None)
    with None no show ?thesis by (simp add: add_succeeded has_id_worker_config)
  next
    case (Some i)
    then have "filter (has_id wid) (workers_of s) \<noteq> []"
      using existing_worker_None[of wid "workers_of s"] by simp
    then have "1 \<le> length (filter (has_id wid) (workers_of s))"
      by (cases "filter (has_id wid) (workers_of s)") simp_all
    with None Some show ?thesis
      by (simp add: add_succeeded replace_existing_length[OF Some has_id_worker_config])
  qed
qed

lemma add_single:
  assumes "add_failure cio = None" and "length (filter (has_id wid) (workers_of s)) \<le> 1"
  shows "filter (has_id wid) (workers_of (add_worker_to_distributed_config cio h s wid ip port))
           = [worker_config h wid ip port]"
proof (cases "existing_worker wid (workers_of s)")
  case None
  then have "filter (has_id wid) (workers_of s) = []" by (simp add: existing_worker_None)
  with assms(1) None show ?thesis by (simp add: add_succeeded has_id_worker_config)
next
  case (Some i)
  with assms(1) show ?thesis
    by (simp add: add_succeeded
        replace_existing_single[OF Some has_id_worker_config assms(2)])
qed

lemma dict_set_single:
  assumes "distinct (map fst d)"
  shows "filter (\<lambda>(k, v). k = wid) (dict_set wid v d) = [(wid, v)]"
  using assms
proof (induction d)
  case Nil
  then show ?case by simp
next
  case (Cons p d)
  obtain k v' where p: "p = (k, v')" by (cases p)
  show ?case
  proof (cases "k = wid")
    case True
    with Cons.prems p have "wid \<notin> fst ` set d" by simp
    then have "filter (\<lambda>(k, v). k = wid) d = []" by (force simp: filter_empty_conv)
    with True p show ?thesis by simp
  next
    case False
    with Cons p show ?thesis by simp
  qed
qed


lemma workers_of_registry [simp]:
  "workers_of (s\<lparr>claimed_workers := d\<rparr>) = workers_of s"
  by (simp add: workers_of_def)

lemma register_count:
  "length (filter (has_id wid) (workers_of (snd (register_worker cio h t s wid ip port jid))))
     = (case add_failure cio of
          None \<Rightarrow> max 1 (length (filter (has_id wid) (workers_of s)))
        | Some e \<Rightarrow> length (filter (has_id wid) (workers_of s)))"
  by (simp add: register_worker_def Let_def add_count split: option.splits)

lemma register_single:
  assumes "add_failure cio = None" and "length (filter (has_id wid) (workers_of s)) \<le> 1"
  shows "filter (has_id wid) (workers_of (snd (register_worker cio h t s wid ip port jid)))
           = [worker_config h wid ip port]"
  using assms by (simp add: register_worker_def Let_def add_single)

text \<open>
  C3, as amended. In a well-formed state, registering a worker id twice, with any
  addresses and any outcomes of the configuration store, leaves exactly one record of
  the id in the registry, which holds the latest address, and leaves the registry as long
  as after the first registration. In the shared configuration no duplicate is created:
  the entries of the id are at most one, or as many as there were. And when the update
  of the second registration does not fail and the configuration had at most one entry
  of the id, it has exactly one, which holds the latest address.
\<close>

theorem register_twice_one_record:
  assumes "wf s"
    and "s1 = snd (register_worker cio1 h1 t1 s wid ip1 port1 jid1)"
    and "s2 = snd (register_worker cio2 h2 t2 s1 wid ip2 port2 jid2)"
  shows "filter (\<lambda>(k, info). k = wid) (claimed_workers s2)
           = [(wid, \<lparr>w_id = wid, w_ip = ip2, w_port = port2, w_job_id = jid2, last_seen = t2\<rparr>)]
         \<and> length (claimed_workers s2) = length (claimed_workers s1)
         \<and> length (filter (has_id wid) (workers_of s2))
             \<le> max 1 (length (filter (has_id wid) (workers_of s)))
         \<and> (add_failure cio2 = None \<and> length (filter (has_id wid) (workers_of s)) \<le> 1
              \<longrightarrow> filter (has_id wid) (workers_of s2) = [worker_config h2 wid ip2 port2])"
proof (intro conjI impI)
  from wf_register[OF assms(1)] assms(2) have "wf s1" by simp
  then have dist: "distinct (map fst (claimed_workers s1))" by (simp add: wf_def)
  have reg2: "claimed_workers s2
                = dict_set wid \<lparr>w_id = wid, w_ip = ip2, w_port = port2, w_job_id = jid2,
                                  last_seen = t2\<rparr> (claimed_workers s1)"
    by (simp add: assms(3) register_worker_def Let_def)
  show "filter (\<lambda>(k, info). k = wid) (claimed_workers s2)
           = [(wid, \<lparr>w_id = wid, w_ip = ip2, w_port = port2, w_job_id = jid2, last_seen = t2\<rparr>)]"
    unfolding reg2 by (rule dict_set_single[OF dist])
  have "map_of (claimed_workers s1) wid \<noteq> None"
    by (simp add: assms(2) register_record(1))
  then have "wid \<in> fst ` set (claimed_workers s1)" by (simp add: map_of_eq_None_iff)
  then have "map fst (claimed_workers s2) = map fst (claimed_workers s1)"
    unfolding reg2 by (simp add: keys_dict_set)
  then show "length (claimed_workers s2) = length (claimed_workers s1)"
    by (metis length_map)
  show "length (filter (has_id wid) (workers_of s2))
             \<le> max 1 (length (filter (has_id wid) (workers_of s)))"
    by (simp add: assms(2,3) register_count split: option.splits)
next
  assume ok: "add_failure cio2 = None \<and> length (filter (has_id wid) (workers_of s)) \<le> 1"
  then have "length (filter (has_id wid) (workers_of s1)) \<le> 1"
    by (simp add: assms(2) register_count split: option.splits)
  with ok show "filter (has_id wid) (workers_of s2) = [worker_config h2 wid ip2 port2]"
    by (simp add: assms(3) register_single)
qed

theorem register_twice_one_record_witness:
  "wf (init None \<lparr>workers = Some []\<rparr>)
   \<and> add_failure no_io_error = None
   \<and> length (filter (has_id ''w1'') (workers_of (init None \<lparr>workers = Some []\<rparr>))) \<le> 1
   \<and> filter (\<lambda>(k, info). k = ''w1'')
         (claimed_workers (registered_twice no_io_error (init None \<lparr>workers = Some []\<rparr>)))
       = [(''w1'', \<lparr>w_id = ''w1'', w_ip = ''10.0.0.2'', w_port = 8290, w_job_id = None,
                     last_seen = 2\<rparr>)]
   \<and> filter (has_id ''w1'')
         (workers_of (registered_twice no_io_error (init None \<lparr>workers = Some []\<rparr>)))
       = [worker_config ''node1'' ''w1'' ''10.0.0.2'' 8290]"
proof -
  let ?s = "init None \<lparr>workers = Some []\<rparr>"
  have w: "wf ?s" by (rule wf_init)
  have a: "add_failure no_io_error = None" by code_simp
  have n: "length (filter (has_id ''w1'') (workers_of ?s)) \<le> 1" by code_simp
  have s2: "registered_twice no_io_error ?s
              = snd (register_worker no_io_error ''node1'' 2
                  (snd (register_worker no_io_error ''node1'' 1 ?s ''w1'' ''10.0.0.1'' 8289 None))
                  ''w1'' ''10.0.0.2'' 8290 None)"
    by (simp add: registered_twice_def)
  from register_twice_one_record[OF w refl s2] a n w show ?thesis by simp
qed

text \<open>
  C3 as stated fails for the shared configuration. When the load of the second
  registration raises, the exception is swallowed and the one entry keeps the first
  address. And a configuration that already has two entries of the id keeps two: the first
  is replaced, the second stays.
\<close>

theorem register_twice_stale_or_duplicated_snapshot:
  "filter (has_id ''w1'')
     (workers_of (registered_twice config_unreadable (init None \<lparr>workers = Some []\<rparr>)))
     = [worker_config ''node1'' ''w1'' ''10.0.0.1'' 8289]
   \<and> map (\<lambda>w. map_of w ''host'')
         (filter (has_id ''w1'') (workers_of (registered_twice no_io_error duplicated_snapshot)))
       = [Some (JStr ''10.0.0.2''), Some (JStr ''10.0.0.8'')]"
  by code_simp


subsection \<open>The fallback of the extraction\<close>

lemma is_hex_chars:
  assumes "is_hex c"
  shows "c \<in> set ''ABCDEFabcdef0123456789''"
proof (cases "map_of (zip ''ABCDEFGHIJKLMNOPQRSTUVWXYZ'' ''abcdefghijklmnopqrstuvwxyz'') c")
  case None
  with assms show ?thesis
    unfolding is_hex_def to_lower_def by simp
next
  case (Some l)
  then have "(c, l) \<in> set (zip ''ABCDEFGHIJKLMNOPQRSTUVWXYZ'' ''abcdefghijklmnopqrstuvwxyz'')"
    by (rule map_of_SomeD)
  moreover from assms Some have "l \<in> set ''abcdef0123456789''"
    unfolding is_hex_def to_lower_def by simp
  ultimately show ?thesis by auto
qed

lemma hex_not_sep: "is_hex c \<Longrightarrow> \<not> is_sep c"
  by (drule is_hex_chars) (auto simp: is_sep_def py_isspace_def)

lemma match_at_complete:
  assumes "labelled lab seps h"
  shows "match_at (lab @ seps @ h @ post) = Some h"
proof -
  from assms have "length (map to_lower lab) = 6" by (simp add: labelled_def)
  then have len: "length lab = 6" by simp
  from assms have seps: "seps \<noteq> []" "\<And>c. c \<in> set seps \<Longrightarrow> is_sep c"
    and h: "length h = 24" "list_all is_hex h"
    by (simp_all add: labelled_def list_all_iff)
  from h(1) obtain x xs where hx: "h = x # xs" by (cases h) auto
  with h(2) have "\<not> is_sep x" by (simp add: hex_not_sep)
  with hx have tw: "takeWhile is_sep (h @ post) = []" and dw: "dropWhile is_sep (h @ post) = h @ post"
    by simp_all
  have "takeWhile is_sep (seps @ h @ post) = seps"
    using seps(2) by (simp add: takeWhile_append2 tw)
  moreover have "dropWhile is_sep (seps @ h @ post) = h @ post"
    using seps(2) by (simp add: dropWhile_append2 dw)
  ultimately show ?thesis
    using assms len h by (simp add: match_at_def labelled_def)
qed

lemma match_at_sound:
  assumes "match_at s = Some h"
  shows "\<exists>lab seps post. s = lab @ seps @ h @ post \<and> labelled lab seps h"
proof -
  let ?lab = "take 6 s" and ?seps = "takeWhile is_sep (drop 6 s)"
  let ?rest = "dropWhile is_sep (drop 6 s)"
  from assms have c: "map to_lower ?lab = ''job id''" "?seps \<noteq> []" "24 \<le> length ?rest"
      "list_all is_hex (take 24 ?rest)" and h: "h = take 24 ?rest"
    by (auto simp: match_at_def Let_def split: if_splits)
  have "s = ?lab @ drop 6 s" by simp
  also have "drop 6 s = ?seps @ ?rest" by simp
  also have "?rest = h @ drop 24 ?rest" unfolding h by simp
  finally have "s = ?lab @ ?seps @ h @ drop 24 ?rest" .
  moreover have "list_all is_sep ?seps"
    by (simp add: list_all_iff) (meson set_takeWhileD)
  then have "labelled ?lab ?seps h"
    using c h by (simp add: labelled_def)
  ultimately show ?thesis by blast
qed

lemma re_search_leftmost:
  assumes "match_at (drop i s) = Some h" and "i \<le> length s"
    and "\<forall>j<i. match_at (drop j s) = None"
  shows "re_search s = Some h"
  using assms
proof (induction s arbitrary: i)
  case Nil
  then show ?case by simp
next
  case (Cons c cs)
  show ?case
  proof (cases i)
    case 0
    with Cons.prems(1) show ?thesis by simp
  next
    case (Suc k)
    with Cons.prems(3) have "match_at (drop 0 (c # cs)) = None" by blast
    then have none: "match_at (c # cs) = None" by simp
    from Suc Cons.prems(1) have m: "match_at (drop k cs) = Some h" by simp
    from Suc Cons.prems(2) have k: "k \<le> length cs" by simp
    have "\<forall>j<k. match_at (drop j cs) = None"
    proof (intro allI impI)
      fix j assume "j < k"
      with Suc have "Suc j < i" by simp
      with Cons.prems(3) have "match_at (drop (Suc j) (c # cs)) = None" by blast
      then show "match_at (drop j cs) = None" by simp
    qed
    with Cons.IH[OF m k] have "re_search cs = Some h" by simp
    with none show ?thesis by simp
  qed
qed

lemma re_search_none:
  assumes "\<forall>i\<le>length s. match_at (drop i s) = None"
  shows "re_search s = None"
  using assms
proof (induction s)
  case Nil
  then show ?case by simp
next
  case (Cons c cs)
  from Cons.prems have "match_at (drop 0 (c # cs)) = None" by blast
  then have none: "match_at (c # cs) = None" by simp
  have "\<forall>i\<le>length cs. match_at (drop i cs) = None"
  proof (intro allI impI)
    fix i assume "i \<le> length cs"
    then have "Suc i \<le> length (c # cs)" by simp
    with Cons.prems have "match_at (drop (Suc i) (c # cs)) = None" by blast
    then show "match_at (drop i cs) = None" by simp
  qed
  with Cons.IH have "re_search cs = None" by simp
  with none show ?case by simp
qed


lemma re_search_Some:
  "re_search s = Some h \<Longrightarrow> \<exists>i\<le>length s. match_at (drop i s) = Some h"
proof (induction s)
  case Nil
  then show ?case by simp
next
  case (Cons c cs)
  show ?case
  proof (cases "match_at (c # cs)")
    case None
    with Cons.prems have "re_search cs = Some h" by simp
    with Cons.IH obtain i where "i \<le> length cs" "match_at (drop i cs) = Some h" by blast
    then have "Suc i \<le> length (c # cs) \<and> match_at (drop (Suc i) (c # cs)) = Some h" by simp
    then show ?thesis by blast
  next
    case (Some g)
    with Cons.prems have "match_at (drop 0 (c # cs)) = Some h" by simp
    then show ?thesis by blast
  qed
qed

lemma re_search_None_all:
  "re_search s = None \<Longrightarrow> i \<le> length s \<Longrightarrow> match_at (drop i s) = None"
proof (induction s arbitrary: i)
  case Nil
  then show ?case by simp
next
  case (Cons c cs)
  from Cons.prems(1) have none: "match_at (c # cs) = None" and rest: "re_search cs = None"
    by (simp_all split: option.splits)
  show ?case
  proof (cases i)
    case 0
    with none show ?thesis by simp
  next
    case (Suc k)
    with Cons.prems(2) have "k \<le> length cs" by simp
    with Cons.IH[OF rest] have "match_at (drop k cs) = None" by simp
    with Suc show ?thesis by simp
  qed
qed

lemma labelled_position:
  assumes "s = pre @ lab @ seps @ h @ post" and "labelled lab seps h"
  shows "match_at (drop (length pre) s) = Some h"
  using assms by (simp add: match_at_complete)

lemma no_match_before:
  assumes "list_all (\<lambda>i. match_at (drop i s) = None) [0..<n]"
    and "s = pre @ lab @ seps @ h @ post" and "labelled lab seps h"
  shows "n \<le> length pre"
proof (rule ccontr)
  assume "\<not> n \<le> length pre"
  with assms(1) have "match_at (drop (length pre) s) = None" by (simp add: list_all_iff)
  with labelled_position[OF assms(2,3)] show False by simp
qed

text \<open>
  C6, amended. When no white-space separated token of the standard output starts with
  \<open>JobID=\<close>, the extraction falls back to the pattern \<open>Job ID[:\s=]+([a-f0-9]{24})\<close>: it
  returns the identifier of 24 hexadecimal digits that follows the label \<open>Job ID\<close> (in any
  letter case) and one or more colons, equals signs or white-space characters, at the
  leftmost place of the output where such a labelled identifier stands. Whenever the
  output holds a labelled identifier the result is one, of 24 hexadecimal digits; when it
  holds none, an identifier without the label included, the result is the empty string.
\<close>

theorem fallback_returns_first_labelled_id:
  assumes "\<not> has_jobid_token stdout"
  shows "(\<forall>pre lab seps h post.
            stdout = pre @ lab @ seps @ h @ post \<and> labelled lab seps h
            \<and> (\<forall>pre' lab' seps' h' post'.
                  stdout = pre' @ lab' @ seps' @ h' @ post' \<and> labelled lab' seps' h'
                  \<longrightarrow> length pre \<le> length pre')
            \<longrightarrow> extract_job_id stdout = h)
       \<and> ((\<exists>pre lab seps h post. stdout = pre @ lab @ seps @ h @ post \<and> labelled lab seps h)
            \<longrightarrow> length (extract_job_id stdout) = 24 \<and> list_all is_hex (extract_job_id stdout))
       \<and> ((\<nexists>pre lab seps h post. stdout = pre @ lab @ seps @ h @ post \<and> labelled lab seps h)
            \<longrightarrow> extract_job_id stdout = [])"
proof (intro conjI allI impI)
  from assms have fallback: "extract_job_id stdout
      = (case re_search stdout of Some job_id \<Rightarrow> job_id | None \<Rightarrow> [])"
    by (simp add: extract_job_id_def has_jobid_token_def first_jobid_token_None[symmetric])
  {
    fix pre lab seps h post
    assume a: "stdout = pre @ lab @ seps @ h @ post \<and> labelled lab seps h
        \<and> (\<forall>pre' lab' seps' h' post'.
              stdout = pre' @ lab' @ seps' @ h' @ post' \<and> labelled lab' seps' h'
              \<longrightarrow> length pre \<le> length pre')"
    then have dec: "stdout = pre @ lab @ seps @ h @ post" and lab: "labelled lab seps h"
      and first: "\<And>pre' lab' seps' h' post'.
              stdout = pre' @ lab' @ seps' @ h' @ post' \<Longrightarrow> labelled lab' seps' h'
              \<Longrightarrow> length pre \<le> length pre'"
      by blast+
    have here: "match_at (drop (length pre) stdout) = Some h"
      using dec lab by (rule labelled_position)
    have before: "\<forall>j<length pre. match_at (drop j stdout) = None"
    proof (intro allI impI)
      fix j assume j: "j < length pre"
      show "match_at (drop j stdout) = None"
      proof (cases "match_at (drop j stdout)")
        case None
        then show ?thesis .
      next
        case (Some h')
        then obtain lab' seps' post' where d: "drop j stdout = lab' @ seps' @ h' @ post'"
          and l: "labelled lab' seps' h'"
          using match_at_sound by blast
        have "stdout = take j stdout @ drop j stdout" by simp
        with d have "stdout = take j stdout @ lab' @ seps' @ h' @ post'" by simp
        from first[OF this l] have "length pre \<le> length (take j stdout)" .
        with j show ?thesis by simp
      qed
    qed
    from dec have "length pre \<le> length stdout" by simp
    with here have "re_search stdout = Some h"
      using before by (rule re_search_leftmost)
    with fallback show "extract_job_id stdout = h" by simp
  }
  {
    assume "\<exists>pre lab seps h post. stdout = pre @ lab @ seps @ h @ post \<and> labelled lab seps h"
    then obtain pre lab seps h post
      where dec: "stdout = pre @ lab @ seps @ h @ post" and lab: "labelled lab seps h"
      by blast
    have here: "match_at (drop (length pre) stdout) = Some h"
      using dec lab by (rule labelled_position)
    have "re_search stdout \<noteq> None"
    proof
      assume "re_search stdout = None"
      moreover have "length pre \<le> length stdout" using dec by simp
      ultimately have "match_at (drop (length pre) stdout) = None"
        by (rule re_search_None_all)
      with here show False by simp
    qed
    then obtain g where g: "re_search stdout = Some g" by blast
    then obtain i where "match_at (drop i stdout) = Some g" using re_search_Some by blast
    then obtain lab' seps' post' where "labelled lab' seps' g"
      using match_at_sound by blast
    then have "length g = 24 \<and> list_all is_hex g" by (simp add: labelled_def)
    with fallback g show "length (extract_job_id stdout) = 24"
      and "list_all is_hex (extract_job_id stdout)" by simp_all
  }
  {
    assume none: "\<nexists>pre lab seps h post.
        stdout = pre @ lab @ seps @ h @ post \<and> labelled lab seps h"
    have "\<forall>i\<le>length stdout. match_at (drop i stdout) = None"
    proof (intro allI impI)
      fix i
      show "match_at (drop i stdout) = None"
      proof (cases "match_at (drop i stdout)")
        case None
        then show ?thesis .
      next
        case (Some h')
        then obtain lab' seps' post' where d: "drop i stdout = lab' @ seps' @ h' @ post'"
          and l: "labelled lab' seps' h'"
          using match_at_sound by blast
        have "stdout = take i stdout @ drop i stdout" by simp
        with d have "stdout = take i stdout @ lab' @ seps' @ h' @ post'" by simp
        with l none show ?thesis by blast
      qed
    qed
    then have "re_search stdout = None" by (rule re_search_none)
    with fallback show "extract_job_id stdout = []" by simp
  }
qed


theorem fallback_returns_first_labelled_id_witness:
  "\<not> has_jobid_token ''Submitted. JOB ID: 0123456789abcdef01234567 queued''
   \<and> ''Submitted. JOB ID: 0123456789abcdef01234567 queued''
       = ''Submitted. '' @ ''JOB ID'' @ '': '' @ ''0123456789abcdef01234567'' @ '' queued''
   \<and> labelled ''JOB ID'' '': '' ''0123456789abcdef01234567''
   \<and> extract_job_id ''Submitted. JOB ID: 0123456789abcdef01234567 queued''
       = ''0123456789abcdef01234567''
   \<and> length (extract_job_id ''Submitted. JOB ID: 0123456789abcdef01234567 queued'') = 24
   \<and> list_all is_hex (extract_job_id ''Submitted. JOB ID: 0123456789abcdef01234567 queued'')
   \<and> \<not> has_jobid_token ''Submitting job... done''
   \<and> extract_job_id ''Submitting job... done'' = []"
proof -
  let ?out = "''Submitted. JOB ID: 0123456789abcdef01234567 queued''"
  let ?quiet = "''Submitting job... done''"
  have no_token: "\<not> has_jobid_token ?out" by code_simp
  have dec: "?out = ''Submitted. '' @ ''JOB ID'' @ '': '' @ ''0123456789abcdef01234567'' @ '' queued''"
    by simp
  have lab: "labelled ''JOB ID'' '': '' ''0123456789abcdef01234567''" by code_simp
  have before: "list_all (\<lambda>i. match_at (drop i ?out) = None) [0..<11]" by code_simp
  have first: "\<forall>pre' lab' seps' h' post'.
      ?out = pre' @ lab' @ seps' @ h' @ post' \<and> labelled lab' seps' h'
      \<longrightarrow> length ''Submitted. '' \<le> length pre'"
  proof (intro allI impI)
    fix pre' lab' seps' h' post' :: string
    assume "?out = pre' @ lab' @ seps' @ h' @ post' \<and> labelled lab' seps' h'"
    then have "?out = pre' @ lab' @ seps' @ h' @ post'" and "labelled lab' seps' h'"
      by blast+
    with before have "11 \<le> length pre'" by (rule no_match_before)
    then show "length ''Submitted. '' \<le> length pre'" by simp
  qed
  note found = fallback_returns_first_labelled_id[OF no_token]
  from found dec lab first
  have id: "extract_job_id ?out = ''0123456789abcdef01234567''"
    by blast
  from found dec lab
  have shape: "length (extract_job_id ?out) = 24 \<and> list_all is_hex (extract_job_id ?out)"
    by blast
  have quiet_token: "\<not> has_jobid_token ?quiet" by code_simp
  have nowhere: "list_all (\<lambda>i. match_at (drop i ?quiet) = None) [0..<Suc (length ?quiet)]"
    by code_simp
  have absent: "\<nexists>pre lab seps h post.
      ?quiet = pre @ lab @ seps @ h @ post \<and> labelled lab seps h"
  proof
    assume "\<exists>pre lab seps h post. ?quiet = pre @ lab @ seps @ h @ post \<and> labelled lab seps h"
    then obtain pre lab seps h post :: string
      where d: "?quiet = pre @ lab @ seps @ h @ post" and l: "labelled lab seps h"
      by blast
    from nowhere d l have "Suc (length ?quiet) \<le> length pre" by (rule no_match_before)
    moreover from d have "length ?quiet = length (pre @ lab @ seps @ h @ post)" by simp
    ultimately show False by simp
  qed
  from fallback_returns_first_labelled_id[OF quiet_token] absent
  have "extract_job_id ?quiet = []" by blast
  with no_token dec lab id shape quiet_token show ?thesis by blast
qed

text \<open>
  C6 as stated fails: an identifier of 24 hexadecimal digits that no label \<open>Job ID\<close>
  precedes is not returned.
\<close>

theorem unlabelled_identifier_not_extracted:
  "\<not> has_jobid_token ''Submitted job 0123456789abcdef01234567''
   \<and> ''Submitted job 0123456789abcdef01234567''
       = ''Submitted job '' @ ''0123456789abcdef01234567''
   \<and> length ''0123456789abcdef01234567'' = 24
   \<and> list_all is_hex ''0123456789abcdef01234567''
   \<and> extract_job_id ''Submitted job 0123456789abcdef01234567'' = []"
  by code_simp


subsection \<open>The provisioning request\<close>










lemma break_free_Nil [simp]: "break_free []"
  by (simp add: break_free_def)

lemma break_free_Cons [simp]: "break_free (c # cs) \<longleftrightarrow> \<not> line_break c \<and> break_free cs"
  by (simp add: break_free_def)

lemma break_free_append [simp]: "break_free (a @ b) \<longleftrightarrow> break_free a \<and> break_free b"
  by (induction a) auto








lemma split_where_not_empty: "split_where P s \<noteq> []"
  by (induction s) (auto split: list.splits)

















end
